theory Spec2Isabelle
  imports Main "HOL-Library.Word"
begin

unbundle bit_operations_syntax

section \<open>Machine integers and C strings\<close>

text \<open>
  The printf engine (stdio printf source, \<open>src/unnamed/part_004\<close>) and the Ryu core
  (\<open>src/sdk/yalibc/src/ryu.c\<close>) are built for a 64-bit RISC-V target (ryu.c needs
  \<open>__int128\<close>): \<open>int\<close> has 32 bits, \<open>size_t\<close>, \<open>uintmax_t\<close>, \<open>long\<close> and \<open>long long\<close>
  have 64.  Signed values are modelled as \<open>int\<close>, unsigned ones as \<open>nat\<close>, and every
  conversion or wrap-around of the source is written out with the functions below.
  Signed overflow (undefined in C) is modelled as two's complement wrap-around.
\<close>

definition to_int :: "int \<Rightarrow> int" where
  "to_int x = (x + 2 ^ 31) mod 2 ^ 32 - 2 ^ 31"

definition to_size_t :: "int \<Rightarrow> nat" where
  "to_size_t x = nat (x mod 2 ^ 64)"

definition size_t_to_int :: "nat \<Rightarrow> int" where
  "size_t_to_int n = to_int (int n)"

abbreviation INT_MAX :: int where "INT_MAX \<equiv> 2147483647"
abbreviation EINVAL :: int where "EINVAL \<equiv> 22"
abbreviation ENOTSUP :: int where "ENOTSUP \<equiv> 95"

text \<open>
  A C string is the list of its bytes before the terminator; reading at the index of the
  terminator gives the zero byte.
\<close>

definition char_at :: "string \<Rightarrow> nat \<Rightarrow> char" where
  "char_at s i = (if i < length s then s ! i else CHR 0x00)"

definition strlen :: "string \<Rightarrow> nat" where
  "strlen s = length (takeWhile (\<lambda>c. c \<noteq> CHR 0x00) s)"

definition strnlen :: "string \<Rightarrow> nat \<Rightarrow> nat" where
  "strnlen s maxlen = min (strlen s) maxlen"

section \<open>Format descriptor\<close>

abbreviation FFLAG_ALT :: "32 word" where "FFLAG_ALT \<equiv> 0x01"
abbreviation FFLAG_ZERO_PAD :: "32 word" where "FFLAG_ZERO_PAD \<equiv> 0x02"
abbreviation FFLAG_LEFT_ADJ :: "32 word" where "FFLAG_LEFT_ADJ \<equiv> 0x04"
abbreviation FFLAG_NOPSIGN :: "32 word" where "FFLAG_NOPSIGN \<equiv> 0x08"
abbreviation FFLAG_ADDSIGN :: "32 word" where "FFLAG_ADDSIGN \<equiv> 0x10"

abbreviation LFLAG_HALF :: "32 word" where "LFLAG_HALF \<equiv> 0x020"
abbreviation LFLAG_HALF_HALF :: "32 word" where "LFLAG_HALF_HALF \<equiv> 0x040"
abbreviation LFLAG_LONG :: "32 word" where "LFLAG_LONG \<equiv> 0x080"
abbreviation LFLAG_LONG_LONG :: "32 word" where "LFLAG_LONG_LONG \<equiv> 0x100"
abbreviation LFLAG_INTMAX :: "32 word" where "LFLAG_INTMAX \<equiv> 0x200"
abbreviation LFLAG_SIZET :: "32 word" where "LFLAG_SIZET \<equiv> 0x400"
abbreviation LFLAG_PTRDIFF :: "32 word" where "LFLAG_PTRDIFF \<equiv> 0x800"
abbreviation LFLAG_MASK :: "32 word" where "LFLAG_MASK \<equiv> 0xFE0"

abbreviation TFLAG_INT :: "32 word" where "TFLAG_INT \<equiv> 0x01000"
abbreviation TFLAG_DOUBLE :: "32 word" where "TFLAG_DOUBLE \<equiv> 0x02000"
abbreviation TFLAG_CHAR :: "32 word" where "TFLAG_CHAR \<equiv> 0x04000"
abbreviation TFLAG_STRING :: "32 word" where "TFLAG_STRING \<equiv> 0x08000"
abbreviation TFLAG_PTR :: "32 word" where "TFLAG_PTR \<equiv> 0x10000"
abbreviation TFLAG_CTR :: "32 word" where "TFLAG_CTR \<equiv> 0x20000"
abbreviation TFLAG_MASK :: "32 word" where "TFLAG_MASK \<equiv> 0x3F000"

abbreviation SFLAG_HAS_WIDTH :: "32 word" where "SFLAG_HAS_WIDTH \<equiv> 0x0040000"
abbreviation SFLAG_HAS_PREC :: "32 word" where "SFLAG_HAS_PREC \<equiv> 0x0080000"
abbreviation SFLAG_UPPERCASE :: "32 word" where "SFLAG_UPPERCASE \<equiv> 0x0100000"
abbreviation SFLAG_IS_SIGNED :: "32 word" where "SFLAG_IS_SIGNED \<equiv> 0x0200000"
abbreviation SFLAG_IS_FFORM :: "32 word" where "SFLAG_IS_FFORM \<equiv> 0x0400000"
abbreviation SFLAG_IS_EFORM :: "32 word" where "SFLAG_IS_EFORM \<equiv> 0x0800000"
abbreviation SFLAG_IS_GFORM :: "32 word" where "SFLAG_IS_GFORM \<equiv> 0x0C00000"
abbreviation SFLAG_IS_AFORM :: "32 word" where "SFLAG_IS_AFORM \<equiv> 0x1000000"
abbreviation SFLAG_IS_FAST :: "32 word" where "SFLAG_IS_FAST \<equiv> 0x2000000"

abbreviation TRFLAG_REVERSE_PREFIX :: "32 word" where "TRFLAG_REVERSE_PREFIX \<equiv> 0x04000000"
abbreviation TRFLAG_REVERSE_NUM :: "32 word" where "TRFLAG_REVERSE_NUM \<equiv> 0x08000000"
abbreviation TRFLAG_REVERSE_SUFFIX :: "32 word" where "TRFLAG_REVERSE_SUFFIX \<equiv> 0x10000000"

datatype radix = RADIX_BIN | RADIX_OCT | RADIX_DEC | RADIX_HEX

record format_info =
  flags :: "32 word"
  width :: int
  precision :: int
  int_bitlen :: int
  num_pad :: int
  suffix_pad :: int
  radix :: radix

definition yalc_clear_fi :: format_info where
  "yalc_clear_fi = \<lparr>flags = 0, width = 0, precision = 0, int_bitlen = 0, num_pad = 0,
     suffix_pad = 0, radix = RADIX_DEC\<rparr>"

text \<open>\<open>fi->flags & f\<close> read as a truth value, \<open>fi->flags |= f\<close> and \<open>fi->flags &= ~f\<close>.\<close>

definition has_flag :: "format_info \<Rightarrow> 32 word \<Rightarrow> bool" where
  "has_flag fi f = (flags fi AND f \<noteq> 0)"

definition set_flag :: "32 word \<Rightarrow> format_info \<Rightarrow> format_info" where
  "set_flag f fi = fi\<lparr>flags := flags fi OR f\<rparr>"

definition clear_flag :: "32 word \<Rightarrow> format_info \<Rightarrow> format_info" where
  "clear_flag f fi = fi\<lparr>flags := flags fi AND NOT f\<rparr>"

section \<open>Variadic arguments\<close>

text \<open>
  The argument stream after the default promotions: an integer class argument occupies one
  64-bit slot (a narrower \<open>va_arg\<close> type reads its low bits), a double is its binary64 bit
  pattern, a string argument is a null pointer or the bytes of the string.  Reading past
  the end of the stream, or reading an argument of another class, is undefined behaviour.
\<close>

datatype va_arg = VA_Int nat | VA_Double nat | VA_LongDouble | VA_Str "string option"

type_synonym va_list = "va_arg list"

datatype 'a outcome = UB | Fail int | Ok 'a

fun va_arg_int :: "va_list \<Rightarrow> (int \<times> va_list) option" where
  "va_arg_int (VA_Int w # va) = Some (to_int (int w), va)"
| "va_arg_int _ = None"

section \<open>Conversion-specifier parser\<close>

record parse_state =
  ps_fi :: format_info
  width_from_arg :: bool
  prec_from_arg :: bool
  has_bitlen :: bool
  ps_va :: va_list

text \<open>
  One pass through the body of the \<open>switch\<close> of \<open>yalc_pf_parse_format\<close>: \<open>Continue\<close> is
  the statement \<open>continue\<close>, \<open>Skip\<close> is \<open>i++; continue\<close> (the \<open>wf\<close> modifier), \<open>Break\<close> leaves
  the switch at a conversion letter, \<open>Return\<close> is an early \<open>return\<close>, and \<open>Undef\<close> is a
  \<open>va_arg\<close> with no matching argument.
\<close>

datatype step = Continue parse_state | Skip parse_state | Break parse_state | Return int | Undef

definition upd_fi :: "(format_info \<Rightarrow> format_info) \<Rightarrow> parse_state \<Rightarrow> parse_state" where
  "upd_fi f st = st\<lparr>ps_fi := f (ps_fi st)\<rparr>"

definition length_letter :: "32 word \<Rightarrow> parse_state \<Rightarrow> step" where
  "length_letter f st =
     (if has_flag (ps_fi st) LFLAG_MASK then Return (- EINVAL)
      else Continue (upd_fi (set_flag f) st))"

definition parse_digit :: "int \<Rightarrow> parse_state \<Rightarrow> step" where
  "parse_digit d st =
     (let fi = ps_fi st in
      if has_bitlen st then
        (let b = to_int (to_int (int_bitlen fi * 10) + d) in
         if to_size_t b > 64 then Return (- EINVAL)
         else Continue (st\<lparr>ps_fi := fi\<lparr>int_bitlen := b\<rparr>\<rparr>))
      else if \<not> has_flag fi SFLAG_HAS_PREC then
        (if width_from_arg st \<or> prec_from_arg st then Return (- EINVAL)
         else if width fi > INT_MAX div 10 then Return (- EINVAL)
         else Continue (st\<lparr>ps_fi := (set_flag SFLAG_HAS_WIDTH fi)
                  \<lparr>width := to_int (to_int (width fi * 10) + d)\<rparr>\<rparr>))
      else
        (if prec_from_arg st then Return (- EINVAL)
         else if precision fi > INT_MAX div 10 then Return (- EINVAL)
         else Continue (st\<lparr>ps_fi := fi\<lparr>precision := to_int (to_int (precision fi * 10) + d)\<rparr>\<rparr>)))"

definition parse_star :: "parse_state \<Rightarrow> step" where
  "parse_star st =
     (let fi = ps_fi st in
      if width_from_arg st \<and> prec_from_arg st then Return (- EINVAL)
      else if \<not> has_flag fi SFLAG_HAS_PREC then
        (case va_arg_int (ps_va st) of
           None \<Rightarrow> Undef
         | Some (width_arg, va') \<Rightarrow>
             (let fi1 = set_flag SFLAG_HAS_WIDTH fi;
                  fi2 = (if width_arg < 0 then set_flag FFLAG_LEFT_ADJ fi1 else fi1);
                  w = (if width_arg < 0 then to_int (- width_arg) else width_arg)
              in Continue (st\<lparr>ps_fi := fi2\<lparr>width := w\<rparr>, width_from_arg := True, ps_va := va'\<rparr>)))
      else
        (case va_arg_int (ps_va st) of
           None \<Rightarrow> Undef
         | Some (prec_arg, va') \<Rightarrow>
             (if prec_arg < 0 then Continue (st\<lparr>ps_fi := clear_flag SFLAG_HAS_PREC fi, ps_va := va'\<rparr>)
              else Continue (st\<lparr>ps_fi := (set_flag SFLAG_HAS_PREC fi)\<lparr>precision := prec_arg\<rparr>,
                                prec_from_arg := True, ps_va := va'\<rparr>))))"

definition parse_switch :: "char \<Rightarrow> char \<Rightarrow> parse_state \<Rightarrow> step" where
  "parse_switch cur_char next_char st =
     (let fi = ps_fi st in
      if cur_char = CHR ''#'' then Continue (upd_fi (set_flag FFLAG_ALT) st)
      else if cur_char = CHR ''0'' then
        (if has_flag fi SFLAG_HAS_PREC \<and> \<not> prec_from_arg st then
           Continue (upd_fi (\<lambda>fi. fi\<lparr>precision := to_int (precision fi * 10)\<rparr>) st)
         else if has_flag fi SFLAG_HAS_WIDTH \<and> \<not> width_from_arg st then
           Continue (upd_fi (\<lambda>fi. fi\<lparr>width := to_int (width fi * 10)\<rparr>) st)
         else if \<not> has_flag fi FFLAG_ZERO_PAD then Continue (upd_fi (set_flag FFLAG_ZERO_PAD) st)
         else Return (- EINVAL))
      else if cur_char = CHR ''-'' then Continue (upd_fi (set_flag FFLAG_LEFT_ADJ) st)
      else if cur_char = CHR '' '' then Continue (upd_fi (set_flag FFLAG_NOPSIGN) st)
      else if cur_char = CHR ''+'' then Continue (upd_fi (set_flag FFLAG_ADDSIGN) st)
      else if cur_char = CHR 0x27 then Continue st
      else if cur_char \<in> set ''123456789'' then parse_digit (of_char cur_char - 48) st
      else if cur_char = CHR ''.'' then
        (if \<not> has_flag fi SFLAG_HAS_PREC then Continue (upd_fi (set_flag SFLAG_HAS_PREC) st)
         else Return (- EINVAL))
      else if cur_char = CHR ''*'' then parse_star st
      else if cur_char = CHR ''$'' then Return (- ENOTSUP)
      else if cur_char = CHR ''h'' then
        (if has_flag fi LFLAG_HALF then Continue (upd_fi (set_flag LFLAG_HALF_HALF) st)
         else if has_flag fi LFLAG_HALF_HALF then Return (- EINVAL)
         else Continue (upd_fi (set_flag LFLAG_HALF) st))
      else if cur_char = CHR ''l'' then
        (if has_flag fi LFLAG_LONG then Continue (upd_fi (set_flag LFLAG_LONG_LONG) st)
         else if has_flag fi LFLAG_LONG_LONG then Return (- EINVAL)
         else Continue (upd_fi (set_flag LFLAG_LONG) st))
      else if cur_char = CHR ''L'' then length_letter LFLAG_LONG st
      else if cur_char = CHR ''j'' then length_letter LFLAG_INTMAX st
      else if cur_char = CHR ''z'' then length_letter LFLAG_SIZET st
      else if cur_char = CHR ''t'' then length_letter LFLAG_PTRDIFF st
      else if cur_char = CHR ''w'' then
        (if has_bitlen st \<or> has_flag fi LFLAG_MASK then Return (- EINVAL)
         else if next_char = CHR ''f'' then Skip (upd_fi (set_flag SFLAG_IS_FAST) (st\<lparr>has_bitlen := True\<rparr>))
         else Continue (st\<lparr>has_bitlen := True\<rparr>))
      else if cur_char = CHR ''c'' then
        (if has_flag fi LFLAG_LONG then Return (- ENOTSUP)
         else Break (upd_fi (set_flag TFLAG_CHAR) st))
      else if cur_char = CHR ''s'' then
        (if has_flag fi LFLAG_LONG then Return (- ENOTSUP)
         else Break (upd_fi (set_flag TFLAG_STRING) st))
      else if cur_char = CHR ''i'' \<or> cur_char = CHR ''d'' then
        Break (upd_fi (set_flag TFLAG_INT \<circ> set_flag SFLAG_IS_SIGNED) st)
      else if cur_char = CHR ''u'' then Break (upd_fi (set_flag TFLAG_INT) st)
      else if cur_char = CHR ''X'' then
        Break (upd_fi (\<lambda>fi. (set_flag TFLAG_INT (set_flag SFLAG_UPPERCASE fi))\<lparr>radix := RADIX_HEX\<rparr>) st)
      else if cur_char = CHR ''x'' then
        Break (upd_fi (\<lambda>fi. (set_flag TFLAG_INT fi)\<lparr>radix := RADIX_HEX\<rparr>) st)
      else if cur_char = CHR ''B'' then
        Break (upd_fi (\<lambda>fi. (set_flag TFLAG_INT (set_flag SFLAG_UPPERCASE fi))\<lparr>radix := RADIX_BIN\<rparr>) st)
      else if cur_char = CHR ''b'' then
        Break (upd_fi (\<lambda>fi. (set_flag TFLAG_INT fi)\<lparr>radix := RADIX_BIN\<rparr>) st)
      else if cur_char = CHR ''p'' then
        Break (upd_fi (\<lambda>fi. (set_flag TFLAG_INT (set_flag LFLAG_LONG (set_flag FFLAG_ALT fi)))
                            \<lparr>radix := RADIX_HEX\<rparr>) st)
      else if cur_char = CHR ''o'' then
        Break (upd_fi (\<lambda>fi. (set_flag TFLAG_INT fi)\<lparr>radix := RADIX_OCT\<rparr>) st)
      else if cur_char = CHR ''E'' then
        Break (upd_fi (set_flag (SFLAG_IS_EFORM OR TFLAG_DOUBLE) \<circ> set_flag SFLAG_UPPERCASE) st)
      else if cur_char = CHR ''e'' then
        Break (upd_fi (set_flag (SFLAG_IS_EFORM OR TFLAG_DOUBLE)) st)
      else if cur_char = CHR ''F'' then
        Break (upd_fi (set_flag TFLAG_DOUBLE \<circ> set_flag SFLAG_UPPERCASE) st)
      else if cur_char = CHR ''f'' then Break (upd_fi (set_flag TFLAG_DOUBLE) st)
      else if cur_char = CHR ''G'' then
        Break (upd_fi (set_flag (SFLAG_IS_GFORM OR TFLAG_DOUBLE) \<circ> set_flag SFLAG_UPPERCASE) st)
      else if cur_char = CHR ''g'' then
        Break (upd_fi (set_flag (SFLAG_IS_GFORM OR TFLAG_DOUBLE)) st)
      else if cur_char = CHR ''A'' then
        Break (upd_fi (\<lambda>fi. (set_flag (SFLAG_IS_AFORM OR TFLAG_DOUBLE) (set_flag SFLAG_UPPERCASE fi))
                            \<lparr>radix := RADIX_HEX\<rparr>) st)
      else if cur_char = CHR ''a'' then
        Break (upd_fi (\<lambda>fi. (set_flag (SFLAG_IS_AFORM OR TFLAG_DOUBLE) fi)\<lparr>radix := RADIX_HEX\<rparr>) st)
      else if cur_char = CHR ''n'' \<or> cur_char = CHR ''m'' then Return (- ENOTSUP)
      else Continue st)"

text \<open>
  The \<open>for (i = 1; i < fmt_len; i++)\<close> loop.  After a conversion letter the source checks
  that a type bit is set and leaves the loop with \<open>i\<close> at the letter; when the text ends
  first, the loop ends with \<open>i = fmt_len\<close>.
\<close>

function parse_loop :: "string \<Rightarrow> int \<Rightarrow> nat \<Rightarrow> parse_state \<Rightarrow> (nat \<times> parse_state) outcome" where
  "parse_loop fmt fmt_len i st =
     (if int i < fmt_len then
        (case parse_switch (char_at fmt i) (char_at fmt (i + 1)) st of
           Continue st' \<Rightarrow> parse_loop fmt fmt_len (i + 1) st'
         | Skip st' \<Rightarrow> parse_loop fmt fmt_len (i + 2) st'
         | Break st' \<Rightarrow>
             (if flags (ps_fi st') AND TFLAG_MASK = 0 then Fail (- EINVAL) else Ok (i, st'))
         | Return e \<Rightarrow> Fail e
         | Undef \<Rightarrow> UB)
      else Ok (i, st))"
  by pat_completeness auto
termination
  by (relation "measure (\<lambda>(fmt, fmt_len, i, st). nat (fmt_len - int i))") auto

declare parse_loop.simps [simp del]

text \<open>The checks and flag adjustments after the loop.\<close>

definition parse_finish :: "format_info \<Rightarrow> format_info outcome" where
  "parse_finish fi =
     (let type = flags fi AND TFLAG_MASK in
      if type AND (type - 1) \<noteq> 0 then Fail (- EINVAL)
      else if has_flag fi LFLAG_HALF \<and> has_flag fi LFLAG_LONG then Fail (- EINVAL)
      else
        (let fi1 = (if has_flag fi TFLAG_INT \<and> has_flag fi FFLAG_ZERO_PAD \<and> has_flag fi SFLAG_HAS_PREC
                    then clear_flag FFLAG_ZERO_PAD fi else fi);
             fi2 = (if has_flag fi1 FFLAG_ZERO_PAD \<and> has_flag fi1 FFLAG_LEFT_ADJ
                    then clear_flag FFLAG_ZERO_PAD fi1 else fi1)
         in Ok fi2))"

text \<open>
  \<open>yalc_pf_parse_format fmt fmt_len va\<close>: \<open>fmt\<close> starts at the \<open>%\<close>.  The result is the
  negative status (\<open>Fail\<close>), or the index \<open>i\<close> the source returns with the descriptor and
  the advanced argument stream.
\<close>

definition yalc_pf_parse_format :: "string \<Rightarrow> int \<Rightarrow> va_list \<Rightarrow> (nat \<times> format_info \<times> va_list) outcome" where
  "yalc_pf_parse_format fmt fmt_len va =
     (case parse_loop fmt fmt_len 1
             \<lparr>ps_fi = yalc_clear_fi, width_from_arg = False, prec_from_arg = False,
              has_bitlen = False, ps_va = va\<rparr> of
        UB \<Rightarrow> UB
      | Fail e \<Rightarrow> Fail e
      | Ok (i, st) \<Rightarrow>
          (case parse_finish (ps_fi st) of
             UB \<Rightarrow> UB
           | Fail e \<Rightarrow> Fail e
           | Ok fi \<Rightarrow> Ok (i, fi, ps_va st)))"

section \<open>Output sink\<close>

text \<open>
  \<open>struct output_info\<close>: \<open>outbuff\<close> is \<open>None\<close> for the null pointer (output goes to
  \<open>putchar\<close>), otherwise the memory at and after the destination address, indexed from 0,
  so that a store at any index is visible.  \<open>console\<close> is not a field of the struct: it
  is the trace of the bytes handed to \<open>putchar\<close>.  \<open>chars_out\<close> is a \<open>size_t\<close>.
\<close>

record output_info =
  outbuff :: "(nat \<Rightarrow> char) option"
  outbuff_len :: nat
  chars_out :: nat
  console :: string

definition yalc_pf_char_out :: "char \<Rightarrow> output_info \<Rightarrow> output_info" where
  "yalc_pf_char_out c out =
     (let out1 =
        (case outbuff out of
           None \<Rightarrow> out\<lparr>console := console out @ [c]\<rparr>
         | Some mem \<Rightarrow>
             if outbuff_len out > 0 then
               (if chars_out out < outbuff_len out - 1
                  then out\<lparr>outbuff := Some (mem(chars_out out := c))\<rparr>
                else if chars_out out = outbuff_len out - 1
                  then out\<lparr>outbuff := Some (mem(chars_out out := CHR 0x00))\<rparr>
                else out)
             else out)
      in out1\<lparr>chars_out := (chars_out out1 + 1) mod 2 ^ 64\<rparr>)"

text \<open>
  A character buffer with its length (\<open>in\<close>, \<open>in_len\<close>) is the list of its first
  \<open>in_len\<close> bytes.  The reversed loop emits \<open>in[in_len - 1]\<close> first.
\<close>

primrec emit_chars :: "string \<Rightarrow> output_info \<Rightarrow> output_info" where
  "emit_chars [] out = out"
| "emit_chars (c # cs) out = emit_chars cs (yalc_pf_char_out c out)"

definition yalc_pf_chars_out :: "string \<Rightarrow> bool \<Rightarrow> output_info \<Rightarrow> output_info" where
  "yalc_pf_chars_out s reverse out = (if reverse then emit_chars (rev s) out else emit_chars s out)"

primrec yalc_pf_pad :: "nat \<Rightarrow> char \<Rightarrow> output_info \<Rightarrow> output_info" where
  "yalc_pf_pad 0 pad out = out"
| "yalc_pf_pad (Suc n) pad out = yalc_pf_pad n pad (yalc_pf_char_out pad out)"

section \<open>Field output formatter\<close>

text \<open>
  \<open>yalc_pf_field_out\<close> and \<open>yalc_putd\<close> are modelled as \<open>part_004\<close> defines them.  They
  are weak symbols there; the optional simple-printf patch, which replaces them at link
  time by \<open>yalc_pf_field_out_simple\<close> and \<open>yalc_putd_stub\<close>, is not part of the model.
  The lengths \<open>inbuff_len\<close>, \<open>prefix_len\<close> and \<open>suffix_len\<close> are the lengths of the lists.
\<close>

record field_data =
  inbuff :: string
  prefix :: string
  suffix :: string
  sign_char :: char

definition yalc_clear_fld :: field_data where
  "yalc_clear_fld = \<lparr>inbuff = [], prefix = [], suffix = [], sign_char = CHR 0x00\<rparr>"

definition prebuf_pad_of :: "format_info \<Rightarrow> int" where
  "prebuf_pad_of fi = (if num_pad fi < 0 then to_int (- num_pad fi) else 0)"

definition postbuf_pad_of :: "format_info \<Rightarrow> int" where
  "postbuf_pad_of fi = (if num_pad fi < 0 then 0 else num_pad fi)"

definition field_width_of :: "field_data \<Rightarrow> format_info \<Rightarrow> nat" where
  "field_width_of fld fi =
     (length (prefix fld) + to_size_t (prebuf_pad_of fi) + length (inbuff fld) +
      to_size_t (postbuf_pad_of fi) + length (suffix fld) + to_size_t (suffix_pad fi) +
      (if sign_char fld \<noteq> CHR 0x00 then 1 else 0)) mod 2 ^ 64"

definition width_pad_of :: "field_data \<Rightarrow> format_info \<Rightarrow> int" where
  "width_pad_of fld fi =
     (if to_size_t (width fi) > field_width_of fld fi
      then size_t_to_int ((to_size_t (width fi) - field_width_of fld fi) mod 2 ^ 64)
      else 0)"

definition yalc_pf_field_out :: "field_data \<Rightarrow> format_info \<Rightarrow> output_info \<Rightarrow> output_info" where
  "yalc_pf_field_out fld fi out =
     (let prebuf_pad = to_size_t (prebuf_pad_of fi);
          postbuf_pad = to_size_t (postbuf_pad_of fi);
          width_pad = to_size_t (width_pad_of fld fi);
          pad_flags = drop_bit 1 (flags fi) AND 3;
          put_prefix = yalc_pf_chars_out (prefix fld) (has_flag fi TRFLAG_REVERSE_PREFIX);
          put_num = yalc_pf_chars_out (inbuff fld) (has_flag fi TRFLAG_REVERSE_NUM);
          put_suffix = yalc_pf_chars_out (suffix fld) (has_flag fi TRFLAG_REVERSE_SUFFIX);
          suffix_zeros = yalc_pf_pad (to_size_t (suffix_pad fi)) CHR ''0''
      in
      if pad_flags = 0 then
        (suffix_zeros \<circ> put_suffix \<circ> yalc_pf_pad postbuf_pad CHR ''0'' \<circ> put_num \<circ>
         yalc_pf_pad prebuf_pad CHR ''0'' \<circ> put_prefix \<circ> yalc_pf_pad width_pad CHR '' '') out
      else if pad_flags = 1 then
        (let out1 =
           (if has_flag fi TFLAG_DOUBLE then
              (put_prefix \<circ> yalc_pf_pad width_pad CHR ''0'')
                (if sign_char fld \<noteq> CHR 0x00 then yalc_pf_char_out (sign_char fld) out else out)
            else (yalc_pf_pad width_pad CHR ''0'' \<circ> put_prefix) out)
         in (suffix_zeros \<circ> put_suffix \<circ> yalc_pf_pad postbuf_pad CHR ''0'' \<circ> put_num) out1)
      else
        (yalc_pf_pad width_pad CHR '' '' \<circ> suffix_zeros \<circ> put_suffix \<circ>
         yalc_pf_pad postbuf_pad CHR ''0'' \<circ> put_num \<circ> yalc_pf_pad prebuf_pad CHR ''0'' \<circ>
         put_prefix) out)"

section \<open>Integer renderer\<close>

definition radix_base :: "radix \<Rightarrow> nat" where
  "radix_base r = (case r of RADIX_BIN \<Rightarrow> 2 | RADIX_OCT \<Rightarrow> 8 | RADIX_DEC \<Rightarrow> 10 | RADIX_HEX \<Rightarrow> 16)"

definition digit_char :: "radix \<Rightarrow> char \<Rightarrow> nat \<Rightarrow> char" where
  "digit_char r hex_base digit =
     (if r = RADIX_HEX \<and> \<not> digit < 10 then char_of (of_char hex_base + digit - 10 :: nat)
      else char_of (48 + digit))"

text \<open>The \<open>do { ... } while (val)\<close> loops of \<open>yalc_itora\<close>, one per radix in the source.\<close>

function itora_loop :: "radix \<Rightarrow> char \<Rightarrow> nat \<Rightarrow> string" where
  "itora_loop r hex_base val =
     digit_char r hex_base (val mod radix_base r) #
       (if val div radix_base r \<noteq> 0 then itora_loop r hex_base (val div radix_base r) else [])"
  by pat_completeness auto
termination
  by (relation "measure (\<lambda>(r, hex_base, val). val)")
     (auto simp: radix_base_def split: radix.splits)

declare itora_loop.simps [simp del]

text \<open>
  \<open>yalc_itora\<close> returns the digits as written to \<open>num_buff\<close> (least significant first) and
  the descriptor with the reversed-number flag set.
\<close>

definition yalc_itora :: "nat \<Rightarrow> format_info \<Rightarrow> string \<times> format_info" where
  "yalc_itora val fi =
     (itora_loop (radix fi) (if has_flag fi SFLAG_UPPERCASE then CHR ''A'' else CHR ''a'') val,
      set_flag TRFLAG_REVERSE_NUM fi)"

definition putll_negate :: "nat \<Rightarrow> nat" where
  "putll_negate val = (nat (- ((int val - 2 ^ 64) + 1)) + 1) mod 2 ^ 64"

definition putll_prefix :: "nat \<Rightarrow> format_info \<Rightarrow> string" where
  "putll_prefix val fi =
     (case radix fi of
        RADIX_DEC \<Rightarrow>
          if has_flag fi SFLAG_IS_SIGNED then
            (if val \<ge> 2 ^ 63 then ''-''
             else if has_flag fi FFLAG_ADDSIGN then ''+''
             else if has_flag fi FFLAG_NOPSIGN then '' ''
             else [])
          else []
      | RADIX_HEX \<Rightarrow>
          if has_flag fi FFLAG_ALT \<and> val \<noteq> 0
          then [CHR ''0'', if has_flag fi SFLAG_UPPERCASE then CHR ''X'' else CHR ''x''] else []
      | RADIX_BIN \<Rightarrow>
          if has_flag fi FFLAG_ALT \<and> val \<noteq> 0
          then [CHR ''0'', if has_flag fi SFLAG_UPPERCASE then CHR ''B'' else CHR ''b''] else []
      | RADIX_OCT \<Rightarrow> [])"

text \<open>The alternate-form octal adjustment of the precision.\<close>

definition putll_octal :: "string \<Rightarrow> nat \<Rightarrow> format_info \<Rightarrow> format_info" where
  "putll_octal num_buff val fi =
     (if radix fi = RADIX_OCT \<and> has_flag fi FFLAG_ALT then
        (if last num_buff \<noteq> CHR ''0'' \<and> to_size_t (precision fi) \<le> length num_buff
           then (set_flag SFLAG_HAS_PREC fi)\<lparr>precision := size_t_to_int (length num_buff + 1)\<rparr>
         else if precision fi = 0 \<and> val = 0 then fi\<lparr>precision := 1\<rparr>
         else fi)
      else fi)"

text \<open>
  The magnitude that is rendered: a negative signed decimal value is negated
  (\<open>(uintmax_t)(-(sval + 1)) + 1\<close>), everything else is used as it is.
\<close>

definition putll_magnitude :: "nat \<Rightarrow> format_info \<Rightarrow> nat" where
  "putll_magnitude val fi =
     (if radix fi = RADIX_DEC \<and> has_flag fi SFLAG_IS_SIGNED \<and> val \<ge> 2 ^ 63
      then putll_negate val else val)"

definition yalc_putll :: "nat \<Rightarrow> format_info \<Rightarrow> output_info \<Rightarrow> output_info" where
  "yalc_putll val0 fi0 out =
     (let pfx = putll_prefix val0 fi0;
          val = putll_magnitude val0 fi0;
          (num_buff, fi1) = yalc_itora val fi0;
          fi2 = putll_octal num_buff val fi1;
          len = length num_buff;
          fi3 = (if has_flag fi2 SFLAG_HAS_PREC \<and> to_size_t (precision fi2) > len
                 then fi2\<lparr>num_pad := to_int (- (int (to_size_t (precision fi2)) - int len))\<rparr>
                 else fi2);
          digits = (if has_flag fi2 SFLAG_HAS_PREC \<and> \<not> to_size_t (precision fi2) > len \<and>
                       precision fi2 = 0 \<and> val = 0
                    then [] else num_buff)
      in yalc_pf_field_out
           \<lparr>inbuff = digits, prefix = pfx, suffix = [], sign_char = CHR 0x00\<rparr> fi3 out)"

section \<open>Decimal conversion core (ryu.c)\<close>

text \<open>
  \<open>uint32_t\<close>, \<open>uint64_t\<close> and \<open>unsigned __int128\<close> values are naturals below \<open>2 ^ 32\<close>,
  \<open>2 ^ 64\<close> and \<open>2 ^ 128\<close>; \<open>int32_t\<close> values are integers wrapped by \<open>to_int\<close>.  A result
  \<open>None\<close> stands for undefined behaviour (a table read out of bounds, a shift by at least
  the width of the type) or for a loop that does not end.
\<close>

definition to_u32 :: "int \<Rightarrow> nat" where
  "to_u32 x = nat (x mod 2 ^ 32)"

definition to_u64 :: "int \<Rightarrow> nat" where
  "to_u64 x = nat (x mod 2 ^ 64)"

definition max_u32 :: "nat \<Rightarrow> nat \<Rightarrow> nat" where
  "max_u32 a b = (if a > b then a else b)"

definition Log10ofPow2 :: "int \<Rightarrow> nat" where
  "Log10ofPow2 p = ((to_u32 p * 78913) mod 2 ^ 32) div 2 ^ 18"

definition Log10ofPow5 :: "int \<Rightarrow> nat" where
  "Log10ofPow5 p = ((to_u32 p * 732923) mod 2 ^ 32) div 2 ^ 20"

definition Log2ofPow5 :: "int \<Rightarrow> int" where
  "Log2ofPow5 p = to_int (int (((to_u32 p * 1217359) mod 2 ^ 32) div 2 ^ 19))"

definition CeilLog2ofPow5 :: "int \<Rightarrow> int" where
  "CeilLog2ofPow5 p = to_int (Log2ofPow5 p + 1)"

definition DivisibleByPow2 :: "nat \<Rightarrow> nat \<Rightarrow> bool" where
  "DivisibleByPow2 val p = (val AND (2 ^ p - 1) = 0)"

text \<open>The \<open>while (true)\<close> loop of \<open>DivisibleByPow5\<close>; it does not end for \<open>val = 0\<close>.\<close>

partial_function (option) pow5_factor_loop :: "nat \<Rightarrow> nat \<Rightarrow> nat option" where
  "pow5_factor_loop val count =
     (if (val * 14757395258967641293) mod 2 ^ 64 > 3689348814741910323 then Some count
      else pow5_factor_loop ((val * 14757395258967641293) mod 2 ^ 64) ((count + 1) mod 2 ^ 32))"

declare pow5_factor_loop.simps [code]

definition DivisibleByPow5 :: "nat \<Rightarrow> nat \<Rightarrow> bool option" where
  "DivisibleByPow5 val p = map_option (\<lambda>count. count \<ge> p) (pow5_factor_loop val 0)"

definition MulShift64 :: "nat \<Rightarrow> nat \<times> nat \<Rightarrow> int \<Rightarrow> nat option" where
  "MulShift64 a b j =
     (let c0 = a * fst b; c2 = a * snd b in
      if 0 \<le> j - 64 \<and> j - 64 < 128
      then Some ((((c0 div 2 ^ 64 + c2) mod 2 ^ 128) div 2 ^ nat (j - 64)) mod 2 ^ 64)
      else None)"

abbreviation POW5_TABLE_SIZE :: nat where "POW5_TABLE_SIZE \<equiv> 26"

definition POW5_TABLE :: "nat list" where
  "POW5_TABLE = [1, 5, 25, 125, 625, 3125, 15625, 78125, 390625,
     1953125, 9765625, 48828125, 244140625, 1220703125, 6103515625,
     30517578125, 152587890625, 762939453125, 3814697265625,
     19073486328125, 95367431640625, 476837158203125,
     2384185791015625, 11920928955078125, 59604644775390625,
     298023223876953125]"

definition POW5_SPLIT2 :: "(nat \<times> nat) list" where
  "POW5_SPLIT2 = [
     (0, 1152921504606846976),
     (0, 1490116119384765625),
     (1032610780636961552, 1925929944387235853),
     (7910200175544436838, 1244603055572228341),
     (16941905809032713930, 1608611746708759036),
     (13024893955298202172, 2079081953128979843),
     (6607496772837067824, 1343575221513417750),
     (17332926989895652603, 1736530273035216783),
     (13037379183483547984, 2244412773384604712),
     (1605989338741628675, 1450417759929778918),
     (9630225068416591280, 1874621017369538693),
     (665883850346957067, 1211445438634777304),
     (14931890668723713708, 1565756531257009982)]"

definition POW5_OFFSETS :: "nat list" where
  "POW5_OFFSETS = [
     0x00000000, 0x00000000, 0x00000000, 0x00000000, 0x40000000, 0x59695995,
     0x55545555, 0x56555515, 0x41150504, 0x40555410, 0x44555145, 0x44504540,
     0x45555550, 0x40004000, 0x96440440, 0x55565565, 0x54454045, 0x40154151,
     0x55559155, 0x51405555, 0x00000105]"

definition POW5_INV_SPLIT2 :: "(nat \<times> nat) list" where
  "POW5_INV_SPLIT2 = [
     (1, 2305843009213693952),
     (5955668970331000884, 1784059615882449851),
     (8982663654677661702, 1380349269358112757),
     (7286864317269821294, 2135987035920910082),
     (7005857020398200553, 1652639921975621497),
     (17965325103354776697, 1278668206209430417),
     (8928596168509315048, 1978643211784836272),
     (10075671573058298858, 1530901034580419511),
     (597001226353042382, 1184477304306571148),
     (1527430471115325346, 1832889850782397517),
     (12533209867169019542, 1418129833677084982),
     (5577825024675947042, 2194449627517475473),
     (11006974540203867551, 1697873161311732311),
     (10313493231639821582, 1313665730009899186),
     (12701016819766672773, 2032799256770390445)]"

definition POW5_INV_OFFSETS :: "nat list" where
  "POW5_INV_OFFSETS = [
     0x54544554, 0x04055545, 0x10041000, 0x00400414, 0x40010000, 0x41155555,
     0x00000454, 0x00010044, 0x40000000, 0x44000041, 0x50454450, 0x55550054,
     0x51655554, 0x40004000, 0x01000001, 0x00010500, 0x51515411, 0x05555554,
     0x00000000]"

text \<open>A table read: \<open>None\<close> when the index is not an index of the table.\<close>

definition table_at :: "'a list \<Rightarrow> nat \<Rightarrow> 'a option" where
  "table_at tbl i = (if i < length tbl then Some (tbl ! i) else None)"

text \<open>
  The sum \<open>(b0 >> delta) + (b2 << (64 - delta)) + extra\<close> of both table functions, in
  128-bit arithmetic; \<open>delta\<close> and \<open>64 - delta\<close> are \<open>uint32_t\<close>.
\<close>

definition shifted_sum :: "nat \<Rightarrow> nat \<Rightarrow> nat \<Rightarrow> nat \<Rightarrow> nat option" where
  "shifted_sum b0 b2 delta extra =
     (let up = to_u32 (64 - int delta) in
      if delta < 128 \<and> up < 128
      then Some ((b0 div 2 ^ delta + (b2 * 2 ^ up) mod 2 ^ 128 + extra) mod 2 ^ 128)
      else None)"

definition Pow5Inv2k :: "nat \<Rightarrow> (nat \<times> nat) option" where
  "Pow5Inv2k p =
     (let base = p div POW5_TABLE_SIZE;
          base2 = (base * POW5_TABLE_SIZE) mod 2 ^ 32;
          offset = to_u32 (int p - int base2)
      in case table_at POW5_SPLIT2 base of
           None \<Rightarrow> None
         | Some mul \<Rightarrow>
             if offset = 0 then Some mul
             else
               (case (table_at POW5_TABLE offset, table_at POW5_OFFSETS (p div 16)) of
                  (Some m, Some off) \<Rightarrow>
                    (let b0 = m * fst mul;
                         b2 = m * snd mul;
                         delta = to_u32 (CeilLog2ofPow5 (to_int (int p)) -
                                         CeilLog2ofPow5 (to_int (int base2)))
                     in map_option (\<lambda>s. (s mod 2 ^ 64, s div 2 ^ 64))
                          (shifted_sum b0 b2 delta ((off div 2 ^ ((p mod 16) * 2)) AND 3)))
                | _ \<Rightarrow> None))"

definition Pow2kInvPow5 :: "nat \<Rightarrow> (nat \<times> nat) option" where
  "Pow2kInvPow5 p =
     (let base = ((p + POW5_TABLE_SIZE - 1) mod 2 ^ 32) div POW5_TABLE_SIZE;
          base2 = (base * POW5_TABLE_SIZE) mod 2 ^ 32;
          offset = to_u32 (int base2 - int p)
      in case table_at POW5_INV_SPLIT2 base of
           None \<Rightarrow> None
         | Some mul \<Rightarrow>
             if offset = 0 then Some mul
             else
               (case (table_at POW5_TABLE offset, table_at POW5_INV_OFFSETS (p div 16)) of
                  (Some m, Some off) \<Rightarrow>
                    (let b0 = m * to_u64 (int (fst mul) - 1);
                         b2 = m * snd mul;
                         delta = to_u32 (CeilLog2ofPow5 (to_int (int base2)) -
                                         CeilLog2ofPow5 (to_int (int p)))
                     in map_option (\<lambda>s. (s mod 2 ^ 64, s div 2 ^ 64))
                          (shifted_sum b0 b2 delta (1 + ((off div 2 ^ ((p mod 16) * 2)) AND 3))))
                | _ \<Rightarrow> None))"

text \<open>The fast path's loop that moves trailing zeros to the exponent.\<close>

partial_function (option) strip_zeros_loop :: "nat \<Rightarrow> int \<Rightarrow> (int \<times> nat) option" where
  "strip_zeros_loop fraction10 exponent10 =
     (if fraction10 mod 10 \<noteq> 0 then Some (exponent10, fraction10)
      else strip_zeros_loop (fraction10 div 10) (to_int (exponent10 + 1)))"

declare strip_zeros_loop.simps [code]

text \<open>
  The state of step 4: the three bounds, the two trailing-zero flags, the last removed
  digit and the number of removed digits (also used, with \<open>Zb\<close> as \<open>round_up\<close>, by the
  common path).
\<close>

record ryu_state =
  ry_a :: nat
  ry_b :: nat
  ry_c :: nat
  ry_Za :: bool
  ry_Zb :: bool
  last_removed_digit :: nat
  removed_digits :: int

function general_loop :: "ryu_state \<Rightarrow> ryu_state" where
  "general_loop s =
     (if ry_c s div 10 \<le> ry_a s div 10 then s
      else general_loop
             \<lparr>ry_a = ry_a s div 10, ry_b = ry_b s div 10, ry_c = ry_c s div 10,
              ry_Za = (ry_Za s \<and> ry_a s mod 10 = 0),
              ry_Zb = (ry_Zb s \<and> last_removed_digit s = 0),
              last_removed_digit = ry_b s mod 10,
              removed_digits = to_int (removed_digits s + 1)\<rparr>)"
  by pat_completeness auto
termination
  by (relation "measure ry_c") auto

declare general_loop.simps [simp del]

text \<open>The second loop of the general path (entered when \<open>Za\<close>); it does not end for \<open>a = 0\<close>.\<close>

partial_function (option) za_loop :: "ryu_state \<Rightarrow> ryu_state option" where
  "za_loop s =
     (if ry_a s mod 10 \<noteq> 0 then Some s
      else za_loop
             \<lparr>ry_a = ry_a s div 10, ry_b = ry_b s div 10, ry_c = ry_c s div 10,
              ry_Za = ry_Za s,
              ry_Zb = (ry_Zb s \<and> last_removed_digit s = 0),
              last_removed_digit = ry_b s mod 10,
              removed_digits = to_int (removed_digits s + 1)\<rparr>)"

declare za_loop.simps [code]

text \<open>The loop of the common path; the field \<open>ry_Zb\<close> holds \<open>round_up\<close>.\<close>

function common_loop :: "ryu_state \<Rightarrow> ryu_state" where
  "common_loop s =
     (if ry_c s div 10 \<le> ry_a s div 10 then s
      else common_loop
             \<lparr>ry_a = ry_a s div 10, ry_b = ry_b s div 10, ry_c = ry_c s div 10,
              ry_Za = ry_Za s,
              ry_Zb = (ry_b s mod 10 \<ge> 5),
              last_removed_digit = last_removed_digit s,
              removed_digits = to_int (removed_digits s + 1)\<rparr>)"
  by pat_completeness auto
termination
  by (relation "measure ry_c") auto

declare common_loop.simps [simp del]

text \<open>Step 4, from the bounds and flags of step 3: the digits and the removed count.\<close>

definition shortest_digits :: "bool \<Rightarrow> ryu_state \<Rightarrow> (nat \<times> int) option" where
  "shortest_digits frac_is_even s0 =
     (if ry_Za s0 \<or> ry_Zb s0 then
        (case (let s1 = general_loop s0 in if ry_Za s1 then za_loop s1 else Some s1) of
           None \<Rightarrow> None
         | Some s2 \<Rightarrow>
             (let last = (if ry_Zb s2 \<and> last_removed_digit s2 = 5 \<and> ry_b s2 AND 2 = 0
                          then 4 else last_removed_digit s2);
                  up = ((ry_b s2 = ry_a s2 \<and> \<not> (frac_is_even \<and> ry_Za s2)) \<or> last \<ge> 5)
              in Some ((ry_b s2 + (if up then 1 else 0)) mod 2 ^ 64, removed_digits s2)))
      else
        (let s1 = (if ry_a s0 div 100 < ry_c s0 div 100
                   then s0\<lparr>ry_a := ry_a s0 div 100, ry_b := ry_b s0 div 100, ry_c := ry_c s0 div 100,
                           ry_Zb := (ry_b s0 mod 100 \<ge> 50),
                           removed_digits := to_int (removed_digits s0 + 2)\<rparr>
                   else s0);
             s2 = common_loop s1;
             up = (ry_b s2 = ry_a s2 \<or> ry_Zb s2)
         in Some ((ry_b s2 + (if up then 1 else 0)) mod 2 ^ 64, removed_digits s2)))"

text \<open>
  Step 3 for \<open>exponent2 \<ge> 0\<close>: the decimal exponent and the state handed to step 4.
  \<open>q\<close> is a \<open>uint32_t\<close>: \<open>Log10ofPow2(exponent2) - 1\<close> is computed in unsigned arithmetic
  before the (unsigned) \<open>max\<close> with 0.
\<close>

definition step3_pos :: "int \<Rightarrow> bool \<Rightarrow> nat \<Rightarrow> nat \<Rightarrow> nat \<Rightarrow> (int \<times> ryu_state) option" where
  "step3_pos exponent2 frac_is_even u v w =
     (let q = max_u32 0 (to_u32 (int (Log10ofPow2 exponent2) - 1));
          exponent10 = to_int (int q);
          p = exponent10;
          k = to_int (125 + Log2ofPow5 p);
          i = to_int (- exponent2 + to_int (int q) + k)
      in case Pow2kInvPow5 (to_u32 p) of
           None \<Rightarrow> None
         | Some p2kip5 \<Rightarrow>
             (case (MulShift64 u p2kip5 i, MulShift64 v p2kip5 i, MulShift64 w p2kip5 i) of
                (Some a, Some b, Some c) \<Rightarrow>
                  (let s = \<lparr>ry_a = a, ry_b = b, ry_c = c, ry_Za = False, ry_Zb = False,
                            last_removed_digit = 0, removed_digits = 0\<rparr>
                   in if q \<le> 22 then
                        (if to_u32 (int (v mod 2 ^ 32) - 5 * int ((v div 5) mod 2 ^ 32)) = 0 then
                           map_option (\<lambda>d. (exponent10, s\<lparr>ry_Zb := d\<rparr>)) (DivisibleByPow5 v q)
                         else if frac_is_even then
                           map_option (\<lambda>d. (exponent10, s\<lparr>ry_Za := d\<rparr>)) (DivisibleByPow5 u q)
                         else
                           map_option (\<lambda>d. (exponent10, s\<lparr>ry_c := to_u64 (int c - (if d then 1 else 0))\<rparr>))
                             (DivisibleByPow5 w q))
                      else Some (exponent10, s))
              | _ \<Rightarrow> None))"

text \<open>Step 3 for \<open>exponent2 < 0\<close>.\<close>

definition step3_neg :: "int \<Rightarrow> bool \<Rightarrow> bool \<Rightarrow> nat \<Rightarrow> nat \<Rightarrow> nat \<Rightarrow> (int \<times> ryu_state) option" where
  "step3_neg exponent2 frac_is_even u_not_smallest u v w =
     (let q = max_u32 0 (to_u32 (int (Log10ofPow5 (- exponent2)) - 1));
          exponent10 = to_int (to_int (int q) + exponent2);
          p = to_int (- exponent10);
          k = to_u32 (CeilLog2ofPow5 p - 125);
          i = to_int (to_int (int q) - int k)
      in case Pow5Inv2k (to_u32 p) of
           None \<Rightarrow> None
         | Some p5i2k \<Rightarrow>
             (case (MulShift64 u p5i2k i, MulShift64 v p5i2k i, MulShift64 w p5i2k i) of
                (Some a, Some b, Some c) \<Rightarrow>
                  (let s = \<lparr>ry_a = a, ry_b = b, ry_c = c, ry_Za = False, ry_Zb = False,
                            last_removed_digit = 0, removed_digits = 0\<rparr>
                   in if q \<le> 1 then
                        (if frac_is_even then Some (exponent10, s\<lparr>ry_Zb := True, ry_Za := u_not_smallest\<rparr>)
                         else Some (exponent10, s\<lparr>ry_Zb := True, ry_c := to_u64 (int c - 1)\<rparr>))
                      else if q \<le> 63 then Some (exponent10, s\<lparr>ry_Zb := DivisibleByPow2 v q\<rparr>)
                      else Some (exponent10, s))
              | _ \<Rightarrow> None))"

text \<open>
  \<open>yalc_double_to_decimal exponent_biased significand\<close> returns \<open>(exponent10, fraction10)\<close>.
\<close>

definition yalc_double_to_decimal :: "nat \<Rightarrow> nat \<Rightarrow> (int \<times> nat) option" where
  "yalc_double_to_decimal exponent_biased significand =
     (let exponent2 = (if exponent_biased \<noteq> 0 then to_int (int exponent_biased - 1023) else - 1022);
          fraction2 = (if exponent_biased \<noteq> 0 then significand OR 2 ^ 52 else significand);
          frac_is_even = (fraction2 AND 1 = 0)
      in
      if 0 < exponent2 \<and> exponent2 < 52 \<and> fraction2 AND (2 ^ nat (52 - exponent2) - 1) = 0
      then strip_zeros_loop (fraction2 div 2 ^ nat (52 - exponent2)) 0
      else
        (let exponent2 = to_int (exponent2 - 54);
             fraction2 = (fraction2 * 4) mod 2 ^ 64;
             u_not_smallest = (exponent_biased \<le> 1 \<or> significand \<noteq> 0);
             u = to_u64 (int fraction2 - (if u_not_smallest then 2 else 1));
             v = fraction2;
             w = (fraction2 + 2) mod 2 ^ 64
         in case (if exponent2 \<ge> 0 then step3_pos exponent2 frac_is_even u v w
                  else step3_neg exponent2 frac_is_even u_not_smallest u v w) of
              None \<Rightarrow> None
            | Some (exponent10, s) \<Rightarrow>
                map_option (\<lambda>(fraction10, removed). (to_int (exponent10 + removed), fraction10))
                  (shortest_digits frac_is_even s)))"

text \<open>
  \<open>yalc_round_to_digits\<close>: \<open>POW10(n)\<close> is \<open>POW5_TABLE[n] << n\<close>; a negative \<open>n\<close> (the
  difference of the two \<open>int\<close>s wrapped), an \<open>n\<close> outside the table and a shift by at least
  64 are undefined.
\<close>

definition yalc_round_to_digits :: "nat \<Rightarrow> int \<Rightarrow> int \<Rightarrow> nat option" where
  "yalc_round_to_digits val current_digits desired_digits =
     (if desired_digits \<ge> current_digits \<or> desired_digits \<ge> 17 then Some val
      else
        (let digits_to_remove = to_int (current_digits - desired_digits) in
         if digits_to_remove < 0 then None
         else
         case table_at POW5_TABLE (nat digits_to_remove) of
           None \<Rightarrow> None
         | Some pow5 \<Rightarrow>
             if digits_to_remove \<ge> 64 then None
             else
               (let divisor = (pow5 * 2 ^ nat digits_to_remove) mod 2 ^ 64;
                    quotient = val div divisor;
                    remainder = val mod divisor;
                    half = divisor div 2
                in if remainder > half then Some ((quotient + 1) mod 2 ^ 64)
                   else if remainder = half \<and> quotient AND 1 \<noteq> 0 then Some ((quotient + 1) mod 2 ^ 64)
                   else Some quotient)))"

section \<open>Float renderer\<close>

partial_function (option) count_dec_loop :: "nat \<Rightarrow> nat \<Rightarrow> nat \<Rightarrow> nat option" where
  "count_dec_loop c val len =
     (if c \<le> val
      then count_dec_loop (((c * 8) mod 2 ^ 64 + (c * 2) mod 2 ^ 64) mod 2 ^ 64) val ((len + 1) mod 2 ^ 64)
      else Some len)"

declare count_dec_loop.simps [code]

function count_hex_loop :: "nat \<Rightarrow> nat \<Rightarrow> nat" where
  "count_hex_loop val len = (if val div 16 \<noteq> 0 then count_hex_loop (val div 16) (len + 1) else len)"
  by pat_completeness auto
termination
  by (relation "measure (\<lambda>(val, len). val)") auto

declare count_hex_loop.simps [simp del]

definition yalc_count_digits :: "nat \<Rightarrow> radix \<Rightarrow> nat option" where
  "yalc_count_digits val r =
     (case r of RADIX_HEX \<Rightarrow> Some (count_hex_loop val 1) | _ \<Rightarrow> count_dec_loop 10 val 1)"

text \<open>
  The locals of \<open>yalc_putd\<close> that reach the label \<open>done\<close>: the descriptor, the bytes
  \<open>num[0 .. len - 1]\<close>, \<open>prefix[0 .. prefix_len - 1]\<close>, \<open>suffix[0 .. suffix_len - 1]\<close> and
  \<open>sign_char\<close>.
\<close>

record putd_state =
  pd_fi :: format_info
  pd_num :: string
  pd_prefix :: string
  pd_suffix :: string
  pd_sign :: char

text \<open>The exponent text \<open>XXX\<close>, then the sign, then the exponent letter (emitted reversed).\<close>

definition exp_suffix :: "int \<Rightarrow> format_info \<Rightarrow> nat \<Rightarrow> char \<Rightarrow> string \<times> format_info" where
  "exp_suffix exp_val fi min_digits letter =
     (let (digits, fi1) = yalc_itora (to_u64 (if exp_val < 0 then to_int (- exp_val) else exp_val)) fi;
          digits1 = (if length digits < min_digits then digits @ ''0'' else digits)
      in (digits1 @ [if exp_val < 0 then CHR ''-'' else CHR ''+'', letter],
          set_flag TRFLAG_REVERSE_SUFFIX fi1))"

partial_function (option) subnormal_loop :: "nat \<Rightarrow> int \<Rightarrow> (nat \<times> int) option" where
  "subnormal_loop significand exp_val =
     (if significand AND 2 ^ 52 \<noteq> 0 then Some (significand, exp_val)
      else subnormal_loop ((significand * 2) mod 2 ^ 64) (to_int (exp_val - 1)))"

declare subnormal_loop.simps [code]

text \<open>Ties-to-even rounding of the 53-bit significand to \<open>precision\<close> hex digits.\<close>

definition aform_round :: "int \<Rightarrow> nat \<Rightarrow> int \<Rightarrow> (nat \<times> int) option" where
  "aform_round prec significand exp_val =
     (let bits_to_remove = to_int (52 - to_int (prec * 4)) in
      if prec < 13 \<and> bits_to_remove > 0 then
        (if bits_to_remove \<ge> 64 then None
         else
           (let msb = 2 ^ nat bits_to_remove;
                round_bit = 2 ^ nat (bits_to_remove - 1);
                sticky_mask = round_bit - 1;
                (sig1, exp1) =
                  (if significand AND round_bit \<noteq> 0 \<and>
                      (significand AND sticky_mask \<noteq> 0 \<or> significand AND msb \<noteq> 0)
                   then (let sig' = (significand + msb) mod 2 ^ 64 in
                         if sig' AND 2 ^ 53 \<noteq> 0 then (sig' div 2, to_int (exp_val + 1))
                         else (sig', exp_val))
                   else (significand, exp_val))
            in Some (sig1 AND (2 ^ 64 - msb), exp1)))
      else Some (significand, exp_val))"

definition putd_aform :: "nat \<Rightarrow> nat \<Rightarrow> bool \<Rightarrow> putd_state \<Rightarrow> putd_state option" where
  "putd_aform exponent_biased significand0 is_uppercase st =
     (case (if exponent_biased = 0 then subnormal_loop significand0 (- 1022)
            else Some (significand0 OR 2 ^ 52, to_int (int exponent_biased - 1023))) of
        None \<Rightarrow> None
      | Some (sig1, exp1) \<Rightarrow>
          (case aform_round (precision (pd_fi st)) sig1 exp1 of
             None \<Rightarrow> None
           | Some (significand, exp_val) \<Rightarrow>
               (let (num_buff, fi1) = yalc_itora significand (pd_fi st);
                    len = length num_buff - 1;
                    pfx = pd_prefix st @ [CHR ''0'', if is_uppercase then CHR ''X'' else CHR ''x'',
                                          last num_buff] @
                          (if precision fi1 \<noteq> 0 \<or> has_flag fi1 FFLAG_ALT then ''.'' else []);
                    fi2 = (if to_size_t (precision fi1) > len
                           then fi1\<lparr>num_pad := size_t_to_int (to_size_t (precision fi1) - len)\<rparr>
                           else fi1);
                    num = (if len > to_size_t (precision fi2)
                           then take (to_size_t (precision fi2))
                                  (drop (len - to_size_t (precision fi2)) (butlast num_buff))
                           else butlast num_buff);
                    (sfx, fi3) = exp_suffix exp_val (fi2\<lparr>radix := RADIX_DEC\<rparr>) 0
                                   (if is_uppercase then CHR ''P'' else CHR ''p'')
                in Some (st\<lparr>pd_fi := fi3, pd_num := num, pd_prefix := pfx, pd_suffix := sfx\<rparr>))))"

definition putd_eform :: "int \<Rightarrow> nat \<Rightarrow> int \<Rightarrow> bool \<Rightarrow> bool \<Rightarrow> putd_state \<Rightarrow> putd_state option" where
  "putd_eform exponent10_0 fraction10_0 frac_digits add_trailing_zeros is_uppercase st =
     (let fi0 = pd_fi st;
          decimal_digits = to_int (frac_digits - 1)
      in case
           (if precision fi0 < decimal_digits then
              (case yalc_round_to_digits fraction10_0 decimal_digits (precision fi0) of
                 None \<Rightarrow> None
               | Some rounded \<Rightarrow>
                   (case yalc_count_digits rounded RADIX_DEC of
                      None \<Rightarrow> None
                    | Some rounded_decimals \<Rightarrow>
                        if size_t_to_int rounded_decimals >
                           to_int (frac_digits - to_int (decimal_digits - precision fi0))
                        then Some (rounded div 10, to_int (exponent10_0 + 1), fi0)
                        else Some (rounded, exponent10_0, fi0)))
            else if add_trailing_zeros
              then Some (fraction10_0, exponent10_0,
                         fi0\<lparr>num_pad := to_int (precision fi0 - decimal_digits)\<rparr>)
            else Some (fraction10_0, exponent10_0, fi0)) of
           None \<Rightarrow> None
         | Some (fraction10, exponent10, fi1) \<Rightarrow>
             (let (num_buff, fi2) = yalc_itora fraction10 fi1;
                  num = butlast num_buff;
                  pfx = pd_prefix st @ [last num_buff] @
                        (if (length num > 0 \<or> num_pad fi2 \<noteq> 0) \<or> has_flag fi2 FFLAG_ALT
                         then ''.'' else []);
                  (sfx, fi3) = exp_suffix (to_int (exponent10 + decimal_digits)) fi2 2
                                 (if is_uppercase then CHR ''E'' else CHR ''e'')
              in Some (st\<lparr>pd_fi := fi3, pd_num := num, pd_prefix := pfx, pd_suffix := sfx\<rparr>)))"

text \<open>f-form, case 1: \<open>exponent10 \<ge> 0\<close>, all digits then \<open>exponent10\<close> zeros.\<close>

definition fform_integer :: "int \<Rightarrow> nat \<Rightarrow> bool \<Rightarrow> putd_state \<Rightarrow> putd_state" where
  "fform_integer exponent10 fraction10 add_trailing_zeros st =
     (let (num_buff, fi1) = yalc_itora fraction10 (pd_fi st);
          fi2 = fi1\<lparr>num_pad := exponent10\<rparr>
      in if (add_trailing_zeros \<and> precision fi2 \<noteq> 0) \<or> has_flag fi2 FFLAG_ALT
         then st\<lparr>pd_fi := fi2\<lparr>suffix_pad := precision fi2\<rparr>, pd_num := num_buff,
                 pd_suffix := pd_suffix st @ ''.''\<rparr>
         else st\<lparr>pd_fi := fi2, pd_num := num_buff\<rparr>)"

text \<open>f-form, case 2: \<open>int_digits \<le> 0\<close>, a pure fraction with leading zeros.\<close>

definition fform_fraction :: "int \<Rightarrow> nat \<Rightarrow> int \<Rightarrow> bool \<Rightarrow> putd_state \<Rightarrow> putd_state option" where
  "fform_fraction exponent10 fraction10 frac_digits add_trailing_zeros st =
     (let fi0 = pd_fi st;
          leading_zeroes = to_int (to_int (- exponent10) - frac_digits);
          decimal_digits = to_int (leading_zeroes + frac_digits)
      in case
           (if precision fi0 \<le> leading_zeroes then
              Some ([], 0,
                    if add_trailing_zeros then fi0\<lparr>num_pad := to_int (- precision fi0)\<rparr>
                    else fi0\<lparr>precision := 0\<rparr>)
            else if precision fi0 \<ge> decimal_digits then
              (let (num_buff, fi1) = yalc_itora fraction10 fi0;
                   fi2 = fi1\<lparr>num_pad := to_int (- leading_zeroes)\<rparr>
               in Some (num_buff, 0,
                        if add_trailing_zeros
                        then fi2\<lparr>suffix_pad := to_int (precision fi2 - decimal_digits)\<rparr> else fi2))
            else
              (let remaining_digits = to_int (precision fi0 - leading_zeroes) in
               case yalc_round_to_digits fraction10 frac_digits remaining_digits of
                 None \<Rightarrow> None
               | Some rounded \<Rightarrow>
                   (let (num_buff, fi1) = yalc_itora rounded fi0 in
                    if length num_buff > to_size_t remaining_digits then
                      Some ([], 1,
                            (if add_trailing_zeros then fi1\<lparr>suffix_pad := remaining_digits\<rparr>
                             else fi1\<lparr>precision := 0\<rparr>)\<lparr>num_pad := to_int (- leading_zeroes)\<rparr>)
                    else Some (num_buff, 0, fi1\<lparr>num_pad := to_int (- leading_zeroes)\<rparr>)))) of
           None \<Rightarrow> None
         | Some (num, carry, fi3) \<Rightarrow>
             Some (st\<lparr>pd_fi := fi3, pd_num := num,
                      pd_prefix := pd_prefix st @ [char_of (48 + carry :: nat)] @
                        (if precision fi3 \<noteq> 0 \<or> has_flag fi3 FFLAG_ALT then ''.'' else [])\<rparr>))"

text \<open>
  f-form, case 3: the decimal point falls inside the digits.  \<open>suffix\<close> and \<open>prefix\<close> are
  made to point into \<open>num_buff\<close> (fraction digits below index \<open>suffix_len\<close>, integer digits
  and the sign above), and \<open>num\<close> to the decimal point stored in \<open>prefix_buff[0]\<close>.
  \<open>suffix_len\<close> is a \<open>size_t\<close>: when it exceeds the number of bytes written to \<open>num_buff\<close>
  (a wrapped negative precision), \<open>prefix_len = len - suffix_len\<close> wraps and the bytes read
  as the prefix lie outside \<open>num_buff\<close>, which is undefined.
\<close>

definition fform_split :: "nat \<Rightarrow> int \<Rightarrow> int \<Rightarrow> bool \<Rightarrow> putd_state \<Rightarrow> putd_state option" where
  "fform_split fraction10 frac_digits int_digits add_trailing_zeros st =
     (let fi0 = pd_fi st;
          decimal_digits = to_int (frac_digits - int_digits)
      in case (if precision fi0 < decimal_digits
               then map_option (\<lambda>r. (r, to_size_t (precision fi0)))
                      (yalc_round_to_digits fraction10 decimal_digits (precision fi0))
               else Some (fraction10, to_size_t decimal_digits)) of
           None \<Rightarrow> None
         | Some (rounded, untrimed_suffix_len) \<Rightarrow>
             (let (digits, fi1) = yalc_itora rounded fi0;
                  num_buff = (if pd_prefix st \<noteq> [] then digits @ [hd (pd_prefix st)] else digits);
                  pfx = drop untrimed_suffix_len num_buff;
                  suffix_len = untrimed_suffix_len -
                    length (takeWhile (\<lambda>c. c = CHR ''0'') (take untrimed_suffix_len num_buff));
                  sfx = take suffix_len num_buff;
                  fi2 = set_flag (TRFLAG_REVERSE_PREFIX OR TRFLAG_REVERSE_SUFFIX) fi1
              in if untrimed_suffix_len > length num_buff then None
                 else if (add_trailing_zeros \<and> untrimed_suffix_len \<noteq> 0) \<or> suffix_len \<noteq> 0 \<or>
                    has_flag fi1 FFLAG_ALT
                 then Some (st\<lparr>pd_fi := (if add_trailing_zeros
                                          then fi2\<lparr>suffix_pad := to_int (precision fi2 - int suffix_len)\<rparr>
                                          else fi2),
                               pd_num := ''.'', pd_prefix := pfx, pd_suffix := sfx\<rparr>)
                 else Some (st\<lparr>pd_fi := fi2, pd_num := [], pd_prefix := pfx, pd_suffix := sfx\<rparr>)))"

definition putd_fform :: "int \<Rightarrow> nat \<Rightarrow> int \<Rightarrow> bool \<Rightarrow> putd_state \<Rightarrow> putd_state option" where
  "putd_fform exponent10 fraction10 frac_digits add_trailing_zeros st =
     (let int_digits = to_int (frac_digits + exponent10) in
      if int_digits \<ge> frac_digits then Some (fform_integer exponent10 fraction10 add_trailing_zeros st)
      else if int_digits \<le> 0 then fform_fraction exponent10 fraction10 frac_digits add_trailing_zeros st
      else fform_split fraction10 frac_digits int_digits add_trailing_zeros st)"

definition putd_gform :: "int \<Rightarrow> nat \<Rightarrow> int \<Rightarrow> bool \<Rightarrow> putd_state \<Rightarrow> putd_state option" where
  "putd_gform exponent10 fraction10 frac_digits is_uppercase st =
     (let fi0 = pd_fi st;
          fi1 = (if precision fi0 = 0 then fi0\<lparr>precision := 1\<rparr> else fi0);
          add_trailing_zeros = has_flag fi1 FFLAG_ALT;
          exp_val = to_int (to_int (exponent10 + frac_digits) - 1)
      in if precision fi1 > exp_val \<and> exp_val \<ge> - 4
         then putd_fform exponent10 fraction10 frac_digits add_trailing_zeros
                (st\<lparr>pd_fi := fi1\<lparr>precision := to_int (precision fi1 - to_int (exp_val + 1))\<rparr>\<rparr>)
         else putd_eform exponent10 fraction10 frac_digits add_trailing_zeros is_uppercase
                (st\<lparr>pd_fi := fi1\<lparr>precision := to_int (precision fi1 - 1)\<rparr>\<rparr>))"

text \<open>The value zero: fixed text per form.\<close>

definition putd_zero :: "bool \<Rightarrow> putd_state \<Rightarrow> putd_state" where
  "putd_zero is_uppercase st =
     (let fi = pd_fi st;
          pfx1 = pd_prefix st @
                 (if has_flag fi SFLAG_IS_AFORM
                  then [CHR ''0'', if is_uppercase then CHR ''X'' else CHR ''x''] else []) @ ''0'';
          point = ((flags fi AND SFLAG_IS_GFORM \<noteq> SFLAG_IS_GFORM \<or> has_flag fi FFLAG_ALT) \<and>
                   precision fi \<noteq> 0);
          sfx = (if flags fi AND SFLAG_IS_GFORM = SFLAG_IS_EFORM
                 then [if is_uppercase then CHR ''E'' else CHR ''e'', CHR ''+'', CHR ''0'', CHR ''0'']
                 else if has_flag fi SFLAG_IS_AFORM
                 then [if is_uppercase then CHR ''P'' else CHR ''p'', CHR ''+'', CHR ''0'']
                 else [])
      in st\<lparr>pd_fi := (if point then fi\<lparr>num_pad := precision fi\<rparr> else fi),
            pd_prefix := (if point then pfx1 @ ''.'' else pfx1),
            pd_suffix := pd_suffix st @ sfx\<rparr>)"

text \<open>The body of \<open>yalc_putd\<close> up to the label \<open>done\<close>; \<open>inval\<close> is the bit pattern.\<close>

definition putd_render :: "nat \<Rightarrow> format_info \<Rightarrow> putd_state option" where
  "putd_render inval fi0 =
     (let sign = (inval AND 2 ^ 63 \<noteq> 0);
          exponent_biased = (inval div 2 ^ 52) AND 2047;
          significand = inval AND (2 ^ 52 - 1);
          is_uppercase = has_flag fi0 SFLAG_UPPERCASE;
          fi1 = (if \<not> has_flag fi0 SFLAG_HAS_PREC
                 then fi0\<lparr>precision := (if has_flag fi0 SFLAG_IS_AFORM then 13 else 6)\<rparr> else fi0);
          fi2 = (if precision fi1 > 4096 then fi1\<lparr>precision := 4096\<rparr> else fi1);
          sign_char = (if sign then CHR ''-''
                       else if has_flag fi2 FFLAG_ADDSIGN then CHR ''+''
                       else if has_flag fi2 FFLAG_NOPSIGN then CHR '' ''
                       else CHR 0x00);
          in_prefix = (\<not> has_flag fi2 FFLAG_ZERO_PAD \<and> sign_char \<noteq> CHR 0x00);
          st = \<lparr>pd_fi = fi2, pd_num = [], pd_prefix = (if in_prefix then [sign_char] else []),
                pd_suffix = [], pd_sign = (if in_prefix then CHR 0x00 else sign_char)\<rparr>
      in
      if exponent_biased = 2047 then
        Some (st\<lparr>pd_fi := fi2\<lparr>precision := 0\<rparr>,
                 pd_num := (if significand \<noteq> 0
                            then (if is_uppercase then ''NAN'' else ''nan'')
                            else (if is_uppercase then ''INF'' else ''inf''))\<rparr>)
      else if exponent_biased = 0 \<and> significand = 0 then Some (putd_zero is_uppercase st)
      else
        (let form = drop_bit 22 (flags fi2) AND 7 in
         if form < 4 then
           (case yalc_double_to_decimal exponent_biased significand of
              None \<Rightarrow> None
            | Some (exponent10, fraction10) \<Rightarrow>
                (case yalc_count_digits fraction10 (radix fi2) of
                   None \<Rightarrow> None
                 | Some n \<Rightarrow>
                     (let frac_digits = size_t_to_int n in
                      if form = 3 then putd_gform exponent10 fraction10 frac_digits is_uppercase st
                      else if form = 2 then putd_eform exponent10 fraction10 frac_digits True is_uppercase st
                      else putd_fform exponent10 fraction10 frac_digits True st)))
         else if form = 4 then putd_aform exponent_biased significand is_uppercase st
         else putd_fform 0 0 0 True st))"

definition yalc_putd :: "nat \<Rightarrow> format_info \<Rightarrow> output_info \<Rightarrow> output_info option" where
  "yalc_putd inval fi out =
     map_option
       (\<lambda>st. yalc_pf_field_out
               \<lparr>inbuff = pd_num st, prefix = pd_prefix st, suffix = pd_suffix st,
                sign_char = pd_sign st\<rparr> (pd_fi st) out)
       (putd_render inval fi)"

section \<open>Dispatch loop and entry points\<close>

text \<open>
  The sizes in bytes of \<open>uint_fast8_t\<close>, \<open>uint_fast16_t\<close>, \<open>uint_fast32_t\<close> and
  \<open>uint_fast64_t\<close> come from the compiler's \<open>stdint.h\<close>, which is not part of the
  repository: they are a parameter of the dispatch loop.
\<close>

record fast_sizes =
  sizeof_fast8 :: int
  sizeof_fast16 :: int
  sizeof_fast32 :: int
  sizeof_fast64 :: int

definition resolve_bitlen :: "fast_sizes \<Rightarrow> format_info \<Rightarrow> int outcome" where
  "resolve_bitlen fs fi =
     (if int_bitlen fi = 0 then
        Ok (to_int (8 *
          (if has_flag fi LFLAG_INTMAX then 8
           else if has_flag fi LFLAG_LONG_LONG then 8
           else if has_flag fi LFLAG_LONG then 8
           else if has_flag fi LFLAG_SIZET then 8
           else if has_flag fi LFLAG_PTRDIFF then 8
           else if has_flag fi LFLAG_HALF then 2
           else if has_flag fi LFLAG_HALF_HALF then 1
           else 4)))
      else if has_flag fi SFLAG_IS_FAST then
        (if int_bitlen fi = 8 then Ok (to_int (sizeof_fast8 fs * 8))
         else if int_bitlen fi = 16 then Ok (to_int (sizeof_fast16 fs * 8))
         else if int_bitlen fi = 32 then Ok (to_int (sizeof_fast32 fs * 8))
         else if int_bitlen fi = 64 then Ok (to_int (sizeof_fast64 fs * 8))
         else Fail (- EINVAL))
      else Ok (int_bitlen fi))"

text \<open>
  The value stored in \<open>intval\<close>: the low \<open>bits\<close> bits of the argument slot, sign extended
  to 64 bits for a signed conversion.
\<close>

definition extend_arg :: "bool \<Rightarrow> nat \<Rightarrow> nat \<Rightarrow> nat" where
  "extend_arg is_signed bits w =
     (let x = w mod 2 ^ bits in
      if is_signed \<and> x \<ge> 2 ^ (bits - 1) then x + 2 ^ 64 - 2 ^ bits else x)"

datatype xstep = Next nat output_info va_list | Stop "int option" output_info

definition print_int :: "fast_sizes \<Rightarrow> format_info \<Rightarrow> va_list \<Rightarrow> output_info \<Rightarrow> nat \<Rightarrow> xstep" where
  "print_int fs fi va out i =
     (case resolve_bitlen fs fi of
        UB \<Rightarrow> Stop None out
      | Fail e \<Rightarrow> Stop (Some e) out
      | Ok bitlen \<Rightarrow>
          if bitlen = 8 \<or> bitlen = 16 \<or> bitlen = 32 \<or> bitlen = 64 then
            (case va of
               VA_Int w # va' \<Rightarrow>
                 Next (i + 1)
                   (yalc_putll (extend_arg (has_flag fi SFLAG_IS_SIGNED) (nat bitlen) w)
                      (fi\<lparr>int_bitlen := bitlen\<rparr>) out) va'
             | _ \<Rightarrow> Stop None out)
          else Stop (Some (- EINVAL)) out)"

definition print_double :: "format_info \<Rightarrow> va_list \<Rightarrow> output_info \<Rightarrow> nat \<Rightarrow> xstep" where
  "print_double fi va out i =
     (if has_flag fi LFLAG_LONG then
        (case va of
           VA_LongDouble # va' \<Rightarrow>
             Next (i + 1) (yalc_pf_field_out (yalc_clear_fld\<lparr>inbuff := ''(n/a)''\<rparr>) fi out) va'
         | _ \<Rightarrow> Stop None out)
      else
        (case va of
           VA_Double dval # va' \<Rightarrow>
             (case yalc_putd dval fi out of
                None \<Rightarrow> Stop None out
              | Some out' \<Rightarrow> Next (i + 1) out' va')
         | _ \<Rightarrow> Stop None out))"

definition print_char :: "format_info \<Rightarrow> va_list \<Rightarrow> output_info \<Rightarrow> nat \<Rightarrow> xstep" where
  "print_char fi va out i =
     (case va of
        VA_Int w # va' \<Rightarrow>
          Next (i + 1) (yalc_pf_field_out (yalc_clear_fld\<lparr>inbuff := [char_of w]\<rparr>) fi out) va'
      | _ \<Rightarrow> Stop None out)"

abbreviation YALC_DEFAULT_STR_PREC :: nat where "YALC_DEFAULT_STR_PREC \<equiv> 4095"

definition print_string :: "format_info \<Rightarrow> va_list \<Rightarrow> output_info \<Rightarrow> nat \<Rightarrow> xstep" where
  "print_string fi va out i =
     (case va of
        VA_Str None # va' \<Rightarrow>
          Next (i + 1) (yalc_pf_field_out (yalc_clear_fld\<lparr>inbuff := ''(null)''\<rparr>) fi out) va'
      | VA_Str (Some strval) # va' \<Rightarrow>
          (let n = (if has_flag fi SFLAG_HAS_PREC \<and> precision fi \<ge> 0
                    then strnlen strval (to_size_t (precision fi))
                    else strnlen strval YALC_DEFAULT_STR_PREC)
           in Next (i + 1) (yalc_pf_field_out (yalc_clear_fld\<lparr>inbuff := take n strval\<rparr>) fi out) va')
      | _ \<Rightarrow> Stop None out)"

text \<open>
  One iteration of the \<open>for\<close> loop of \<open>yalc_xprintf\<close> at index \<open>i < fmt_len\<close>, with the
  loop's \<open>i++\<close>: \<open>Next\<close> carries the next index, \<open>Stop\<close> the value returned (\<open>None\<close> for
  undefined behaviour) and the sink as it is then.  The \<open>break\<close> on a trailing \<open>%\<close> leads
  to the final \<open>return out->chars_out\<close>.
\<close>

definition xprintf_body :: "fast_sizes \<Rightarrow> string \<Rightarrow> nat \<Rightarrow> nat \<Rightarrow> output_info \<Rightarrow> va_list \<Rightarrow> xstep" where
  "xprintf_body fs fmt fmt_len i out va =
     (let cur_char = char_at fmt i in
      if cur_char \<noteq> CHR ''%'' then Next (i + 1) (yalc_pf_char_out cur_char out) va
      else if i = fmt_len - 1 then Stop (Some (size_t_to_int (chars_out out))) out
      else if char_at fmt (i + 1) = CHR ''%'' then Next (i + 2) (yalc_pf_char_out CHR ''%'' out) va
      else
        (case yalc_pf_parse_format (drop i fmt) (size_t_to_int (fmt_len - i)) va of
           UB \<Rightarrow> Stop None out
         | Fail ret \<Rightarrow> Stop (Some ret) out
         | Ok (ret, fi, va1) \<Rightarrow>
             (let i1 = i + ret;
                  type = flags fi AND TFLAG_MASK
              in if type = TFLAG_INT then print_int fs fi va1 out i1
                 else if type = TFLAG_DOUBLE then print_double fi va1 out i1
                 else if type = TFLAG_CHAR then print_char fi va1 out i1
                 else if type = TFLAG_STRING then print_string fi va1 out i1
                 else Next (i1 + 1) out va1)))"

lemma xprintf_body_advances:
  "xprintf_body fs fmt fmt_len i out va = Next i' out' va' \<Longrightarrow> i < i'"
  by (auto simp: xprintf_body_def Let_def print_int_def print_double_def print_char_def
        print_string_def
      split: if_splits outcome.splits list.splits va_arg.splits option.splits prod.splits)

function xprintf_loop :: "fast_sizes \<Rightarrow> string \<Rightarrow> nat \<Rightarrow> nat \<Rightarrow> output_info \<Rightarrow> va_list \<Rightarrow> int option \<times> output_info" where
  "xprintf_loop fs fmt fmt_len i out va =
     (if i < fmt_len then
        (case xprintf_body fs fmt fmt_len i out va of
           Next i' out' va' \<Rightarrow> xprintf_loop fs fmt fmt_len i' out' va'
         | Stop r out' \<Rightarrow> (r, out'))
      else (Some (size_t_to_int (chars_out out)), out))"
  by pat_completeness auto
termination
  by (relation "measure (\<lambda>(fs, fmt, fmt_len, i, out, va). fmt_len - i)")
     (auto dest: xprintf_body_advances)

declare xprintf_loop.simps [simp del]

text \<open>
  \<open>yalc_xprintf\<close> returns the \<open>int\<close> result (\<open>None\<close>: undefined behaviour was reached) and
  the sink.
\<close>

definition yalc_xprintf :: "fast_sizes \<Rightarrow> output_info \<Rightarrow> string \<Rightarrow> va_list \<Rightarrow> int option \<times> output_info" where
  "yalc_xprintf fs out fmt va = xprintf_loop fs fmt (strlen fmt) 0 out va"

text \<open>
  The entry points.  \<open>vsnprintf\<close> gets the destination (\<open>None\<close> for a null pointer) and its
  capacity; \<open>vprintf\<close> writes to the console, whose earlier content is \<open>con\<close> (the spin
  lock around the call is not modelled).
\<close>

definition vsnprintf :: "fast_sizes \<Rightarrow> (nat \<Rightarrow> char) option \<Rightarrow> nat \<Rightarrow> string \<Rightarrow> va_list \<Rightarrow> int option \<times> output_info" where
  "vsnprintf fs buf len fmt va =
     yalc_xprintf fs \<lparr>outbuff = buf, outbuff_len = len, chars_out = 0, console = []\<rparr> fmt va"

abbreviation SIZE_MAX :: nat where "SIZE_MAX \<equiv> 18446744073709551615"

definition vsprintf :: "fast_sizes \<Rightarrow> (nat \<Rightarrow> char) option \<Rightarrow> string \<Rightarrow> va_list \<Rightarrow> int option \<times> output_info" where
  "vsprintf fs buf fmt va = vsnprintf fs buf SIZE_MAX fmt va"

definition vprintf :: "fast_sizes \<Rightarrow> string \<Rightarrow> string \<Rightarrow> va_list \<Rightarrow> int option \<times> output_info" where
  "vprintf fs con fmt va =
     yalc_xprintf fs \<lparr>outbuff = None, outbuff_len = 0, chars_out = 0, console = con\<rparr> fmt va"

section \<open>Auxiliary notions\<close>

text \<open>
  \<open>field_text fld fi\<close> is the sequence of characters that \<open>yalc_pf_field_out\<close> hands to
  \<open>yalc_pf_char_out\<close>, in order (lemma \<open>field_out_eq_emit\<close> below).
\<close>

definition field_text :: "field_data \<Rightarrow> format_info \<Rightarrow> string" where
  "field_text fld fi =
     (let pre = replicate (to_size_t (prebuf_pad_of fi)) CHR ''0'';
          post = replicate (to_size_t (postbuf_pad_of fi)) CHR ''0'';
          wpad = replicate (to_size_t (width_pad_of fld fi));
          pad_flags = drop_bit 1 (flags fi) AND 3;
          P = (if has_flag fi TRFLAG_REVERSE_PREFIX then rev (prefix fld) else prefix fld);
          N = (if has_flag fi TRFLAG_REVERSE_NUM then rev (inbuff fld) else inbuff fld);
          S = (if has_flag fi TRFLAG_REVERSE_SUFFIX then rev (suffix fld) else suffix fld);
          tail = N @ post @ S @ replicate (to_size_t (suffix_pad fi)) CHR ''0''
      in if pad_flags = 0 then wpad CHR '' '' @ P @ pre @ tail
         else if pad_flags = 1 then
           (if has_flag fi TFLAG_DOUBLE
            then (if sign_char fld \<noteq> CHR 0x00 then [sign_char fld] else []) @ wpad CHR ''0'' @ P
            else P @ wpad CHR ''0'') @ tail
         else P @ pre @ tail @ wpad CHR '' '')"

text \<open>
  \<open>frame mem n out\<close>: the sink writes to a buffer of capacity \<open>n\<close> whose bytes at the
  indices from \<open>n\<close> on are those of \<open>mem\<close>.
\<close>

definition frame :: "(nat \<Rightarrow> char) \<Rightarrow> nat \<Rightarrow> output_info \<Rightarrow> bool" where
  "frame mem n out =
     (outbuff_len out = n \<and> (\<exists>mem'. outbuff out = Some mem' \<and> (\<forall>j. n \<le> j \<longrightarrow> mem' j = mem j)))"

text \<open>
  What the parser maintains about the descriptor: the pads are zero, the precision is an
  \<open>int\<close>, no reversal flag is set, and, until the conversion letter is read, no
  conversion-type bit is set.  \<open>switch_chars\<close> are the characters with a \<open>case\<close> label in
  the parser's switch, \<open>conv_type\<close> the type fields the parser can produce.
\<close>

definition pads_clear :: "format_info \<Rightarrow> bool" where
  "pads_clear fi = (num_pad fi = 0 \<and> suffix_pad fi = 0 \<and>
                    - 2147483648 \<le> precision fi \<and> precision fi \<le> INT_MAX \<and>
                    flags fi AND 0x1C000000 = 0)"

definition parse_inv :: "format_info \<Rightarrow> bool" where
  "parse_inv fi = (flags fi AND TFLAG_MASK = 0 \<and> pads_clear fi)"

definition switch_chars :: string where
  "switch_chars = CHR 0x27 # ''#0- +123456789.*$hlLjztwcsiduXxBbpoEeFfGgAanm''"

definition conv_type :: "32 word \<Rightarrow> bool" where
  "conv_type t = (t = TFLAG_INT \<or> t = TFLAG_DOUBLE \<or> t = TFLAG_CHAR \<or> t = TFLAG_STRING)"

text \<open>
  \<open>xprintf_reaches fs fmt s t\<close>: the loop of \<open>yalc_xprintf\<close> on \<open>fmt\<close>, started in the state
  \<open>s\<close> (index, sink, argument stream), reaches the head of an iteration in the state \<open>t\<close>.
\<close>

inductive xprintf_reaches :: "fast_sizes \<Rightarrow> string \<Rightarrow> nat \<times> output_info \<times> va_list \<Rightarrow> nat \<times> output_info \<times> va_list \<Rightarrow> bool"
  for fs :: fast_sizes and fmt :: string
where
  reaches_start: "xprintf_reaches fs fmt s s"
| reaches_step:
    "xprintf_reaches fs fmt s (i, out, va) \<Longrightarrow> i < strlen fmt \<Longrightarrow>
     xprintf_body fs fmt (strlen fmt) i out va = Next i' out' va' \<Longrightarrow>
     xprintf_reaches fs fmt s (i', out', va')"

text \<open>
  The digits of an integer conversion as they are read from left to right:
  \<open>yalc_itora\<close> writes them least significant first.
\<close>

definition natural_digits :: "nat \<Rightarrow> format_info \<Rightarrow> string" where
  "natural_digits val fi = rev (fst (yalc_itora (putll_magnitude val fi) fi))"

text \<open>Concrete values used in the examples.\<close>

definition wfs :: fast_sizes where
  "wfs = \<lparr>sizeof_fast8 = 1, sizeof_fast16 = 8, sizeof_fast32 = 8, sizeof_fast64 = 8\<rparr>"

definition fi_prec :: "int \<Rightarrow> format_info" where
  "fi_prec p = yalc_clear_fi\<lparr>flags := TFLAG_INT OR SFLAG_HAS_PREC OR SFLAG_IS_SIGNED, precision := p\<rparr>"

definition con0 :: output_info where
  "con0 = \<lparr>outbuff = None, outbuff_len = 0, chars_out = 0, console = []\<rparr>"

text \<open>
  What a step of the dispatch loop yields apart from the bytes written: the next index or
  the returned value, the running count, and the argument stream.
\<close>

fun step_count :: "xstep \<Rightarrow> (nat \<times> nat \<times> va_list) + (int option \<times> nat)" where
  "step_count (Next i out va) = Inl (i, chars_out out, va)"
| "step_count (Stop r out) = Inr (r, chars_out out)"

section \<open>Emitted characters\<close>

lemma emit_chars_append: "emit_chars (a @ b) out = emit_chars b (emit_chars a out)"
  by (induction a arbitrary: out) auto

lemma pad_eq_emit: "yalc_pf_pad n c out = emit_chars (replicate n c) out"
  by (induction n arbitrary: out) auto

lemma chars_out_eq_emit: "yalc_pf_chars_out s r out = emit_chars (if r then rev s else s) out"
  by (simp add: yalc_pf_chars_out_def)

lemma field_out_eq_emit: "yalc_pf_field_out fld fi out = emit_chars (field_text fld fi) out"
  by (simp add: yalc_pf_field_out_def field_text_def Let_def pad_eq_emit chars_out_eq_emit
        emit_chars_append yalc_pf_char_out_def)

lemma char_out_console:
  "outbuff out = None \<Longrightarrow>
   yalc_pf_char_out c out = out\<lparr>console := console out @ [c], chars_out := (chars_out out + 1) mod 2 ^ 64\<rparr>"
  by (simp add: yalc_pf_char_out_def)

lemma emit_chars_console:
  "outbuff out = None \<Longrightarrow> chars_out out < 2 ^ 64 \<Longrightarrow>
   emit_chars s out = out\<lparr>console := console out @ s, chars_out := (chars_out out + length s) mod 2 ^ 64\<rparr>"
proof (induction s arbitrary: out)
  case Nil
  then show ?case by simp
next
  case (Cons c cs)
  then show ?case
    by (simp add: char_out_console mod_simps)
qed


lemma con_emit:
  "length s < 2 ^ 64 \<Longrightarrow>
   emit_chars s con0 = \<lparr>outbuff = None, outbuff_len = 0, chars_out = length s, console = s\<rparr>"
  by (simp add: con0_def emit_chars_console)

lemma replicate_numeral_unfold: "replicate (numeral k) x = x # replicate (pred_numeral k) x"
  by (simp add: numeral_eq_Suc)

lemmas ft_eval = field_text_def has_flag_def width_pad_of_def field_width_of_def prebuf_pad_of_def
  postbuf_pad_of_def to_int_def to_size_t_def size_t_to_int_def replicate_numeral_unfold

section \<open>Conversions in range\<close>

lemma to_int_id: "- 2147483648 \<le> x \<Longrightarrow> x \<le> INT_MAX \<Longrightarrow> to_int x = x"
proof -
  assume "- 2147483648 \<le> x" "x \<le> INT_MAX"
  then have "(x + 2 ^ 31) mod 2 ^ 32 = x + 2 ^ 31"
    by (intro mod_pos_pos_trivial) simp_all
  then show ?thesis by (simp add: to_int_def)
qed

lemma to_size_t_id: "0 \<le> x \<Longrightarrow> x < 2 ^ 64 \<Longrightarrow> to_size_t x = nat x"
  by (simp add: to_size_t_def)

lemma size_t_to_int_id: "n \<le> 2147483647 \<Longrightarrow> size_t_to_int n = int n"
  by (simp add: size_t_to_int_def to_int_id)

lemma to_int_range: "- 2147483648 \<le> to_int x" "to_int x \<le> INT_MAX"
proof -
  have "0 \<le> (x + 2 ^ 31) mod 2 ^ 32" "(x + 2 ^ 31) mod 2 ^ 32 < 2 ^ 32"
    by simp_all
  then show "- 2147483648 \<le> to_int x" "to_int x \<le> INT_MAX"
    by (simp_all add: to_int_def)
qed

section \<open>Unfolding the dispatch loop\<close>

lemma loop_unfold_next:
  "i < n \<Longrightarrow> xprintf_body fs fmt n i out va = Next i' out' va' \<Longrightarrow>
   xprintf_loop fs fmt n i out va = xprintf_loop fs fmt n i' out' va'"
  by (simp add: xprintf_loop.simps)

lemma loop_unfold_stop:
  "i < n \<Longrightarrow> xprintf_body fs fmt n i out va = Stop r out' \<Longrightarrow>
   xprintf_loop fs fmt n i out va = (r, out')"
  by (simp add: xprintf_loop.simps)

lemma loop_unfold_end:
  "\<not> i < n \<Longrightarrow> xprintf_loop fs fmt n i out va = (Some (size_t_to_int (chars_out out)), out)"
  by (simp add: xprintf_loop.simps)

lemma reaches_loop:
  "xprintf_reaches fs fmt s t \<Longrightarrow>
   xprintf_loop fs fmt (strlen fmt) (fst s) (fst (snd s)) (snd (snd s)) =
   xprintf_loop fs fmt (strlen fmt) (fst t) (fst (snd t)) (snd (snd t))"
  by (induction rule: xprintf_reaches.induct) (simp_all add: loop_unfold_next)

section \<open>Field width\<close>










lemma parse_overflowing_width:
  "yalc_pf_parse_format ''%2147483648d'' 12 [] =
     Ok (11, yalc_clear_fi\<lparr>flags := TFLAG_INT OR SFLAG_HAS_WIDTH OR SFLAG_IS_SIGNED, width := - 2147483648\<rparr>, [])"
  by code_simp


section \<open>Stores stay inside the destination buffer\<close>

lemma frame_char_out: "frame mem n out \<Longrightarrow> frame mem n (yalc_pf_char_out c out)"
  by (auto simp: frame_def yalc_pf_char_out_def Let_def)

lemma frame_emit_chars: "frame mem n out \<Longrightarrow> frame mem n (emit_chars s out)"
  by (induction s arbitrary: out) (auto intro: frame_char_out)

lemma frame_field_out: "frame mem n out \<Longrightarrow> frame mem n (yalc_pf_field_out fld fi out)"
  by (simp add: field_out_eq_emit frame_emit_chars)

lemma frame_putll: "frame mem n out \<Longrightarrow> frame mem n (yalc_putll val fi out)"
  by (simp add: yalc_putll_def Let_def frame_field_out split: prod.splits)

lemma frame_putd: "frame mem n out \<Longrightarrow> yalc_putd inval fi out = Some out' \<Longrightarrow> frame mem n out'"
  by (auto simp: yalc_putd_def frame_field_out)

lemma frame_print_int:
  "frame mem n out \<Longrightarrow> print_int fs fi va out i = Next i' out' va' \<Longrightarrow> frame mem n out'"
  "frame mem n out \<Longrightarrow> print_int fs fi va out i = Stop r out' \<Longrightarrow> frame mem n out'"
  by (auto simp: print_int_def frame_putll split: outcome.splits if_splits list.splits va_arg.splits)

lemma frame_print_double:
  "frame mem n out \<Longrightarrow> print_double fi va out i = Next i' out' va' \<Longrightarrow> frame mem n out'"
  "frame mem n out \<Longrightarrow> print_double fi va out i = Stop r out' \<Longrightarrow> frame mem n out'"
  by (auto simp: print_double_def frame_field_out
      split: if_splits list.splits va_arg.splits option.splits dest: frame_putd)

lemma frame_print_char:
  "frame mem n out \<Longrightarrow> print_char fi va out i = Next i' out' va' \<Longrightarrow> frame mem n out'"
  "frame mem n out \<Longrightarrow> print_char fi va out i = Stop r out' \<Longrightarrow> frame mem n out'"
  by (auto simp: print_char_def frame_field_out split: list.splits va_arg.splits)

lemma frame_print_string:
  "frame mem n out \<Longrightarrow> print_string fi va out i = Next i' out' va' \<Longrightarrow> frame mem n out'"
  "frame mem n out \<Longrightarrow> print_string fi va out i = Stop r out' \<Longrightarrow> frame mem n out'"
  by (auto simp: print_string_def frame_field_out Let_def split: list.splits va_arg.splits option.splits)

lemmas frame_print = frame_print_int frame_print_double frame_print_char frame_print_string

lemma frame_body:
  assumes "frame mem n out"
  shows "xprintf_body fs fmt fmt_len i out va = Next i' out' va' \<Longrightarrow> frame mem n out'"
    and "xprintf_body fs fmt fmt_len i out va = Stop r out' \<Longrightarrow> frame mem n out'"
  using assms
  by (auto simp: xprintf_body_def Let_def frame_char_out
      split: if_splits outcome.splits prod.splits dest: frame_print)

lemma frame_loop:
  "frame mem n out \<Longrightarrow> xprintf_loop fs fmt fmt_len i out va = (r, out') \<Longrightarrow> frame mem n out'"
proof (induction fs fmt fmt_len i out va rule: xprintf_loop.induct)
  case (1 fs fmt fmt_len i out va)
  show ?case
  proof (cases "i < fmt_len")
    case False
    with "1.prems" show ?thesis by (simp add: xprintf_loop.simps)
  next
    case True
    show ?thesis
    proof (cases "xprintf_body fs fmt fmt_len i out va")
      case (Next i1 out1 va1)
      with True "1.prems" have "xprintf_loop fs fmt fmt_len i1 out1 va1 = (r, out')"
        by (simp add: xprintf_loop.simps)
      moreover have "frame mem n out1"
        using frame_body(1) [OF "1.prems"(1) Next] .
      ultimately show ?thesis
        using "1.IH" [OF True Next] by simp
    next
      case (Stop r1 out1)
      with True "1.prems" have "out' = out1"
        by (simp add: xprintf_loop.simps)
      then show ?thesis
        using frame_body(2) [OF "1.prems"(1) Stop] by simp
    qed
  qed
qed

text \<open>
  C10: with a destination buffer of capacity \<open>outbuff_len > 0\<close>, \<open>yalc_pf_char_out\<close> stores
  the byte at index \<open>chars_out\<close> when \<open>chars_out < outbuff_len - 1\<close>, the terminator at index
  \<open>outbuff_len - 1\<close> when \<open>chars_out = outbuff_len - 1\<close>, and nothing otherwise; and after a
  whole bounded write of capacity \<open>N\<close> (any format, any arguments, any result) every byte
  at an index \<open>j \<ge> N\<close> is what it was before the call.
\<close>

theorem bounded_write_stores_within_capacity:
  "(outbuff out = Some mem \<and> 0 < outbuff_len out \<longrightarrow>
      outbuff (yalc_pf_char_out c out) =
        Some (if chars_out out < outbuff_len out - 1 then mem(chars_out out := c)
              else if chars_out out = outbuff_len out - 1 then mem(outbuff_len out - 1 := CHR 0x00)
              else mem))
   \<and> (vsnprintf fs (Some mem) N fmt va = (r, out') \<longrightarrow>
        (\<exists>mem'. outbuff out' = Some mem' \<and> (\<forall>j. N \<le> j \<longrightarrow> mem' j = mem j)))"
proof (intro conjI impI)
  assume "outbuff out = Some mem \<and> 0 < outbuff_len out"
  then show "outbuff (yalc_pf_char_out c out) =
        Some (if chars_out out < outbuff_len out - 1 then mem(chars_out out := c)
              else if chars_out out = outbuff_len out - 1 then mem(outbuff_len out - 1 := CHR 0x00)
              else mem)"
    by (auto simp: yalc_pf_char_out_def Let_def)
next
  assume run: "vsnprintf fs (Some mem) N fmt va = (r, out')"
  have "frame mem N \<lparr>outbuff = Some mem, outbuff_len = N, chars_out = 0, console = []\<rparr>"
    by (simp add: frame_def)
  then have "frame mem N out'"
    using run by (auto simp: vsnprintf_def yalc_xprintf_def dest: frame_loop)
  then show "\<exists>mem'. outbuff out' = Some mem' \<and> (\<forall>j. N \<le> j \<longrightarrow> mem' j = mem j)"
    by (simp add: frame_def)
qed

text \<open>Writing \<open>hey\<close> with capacity 2: \<open>h\<close>, the terminator, and nothing beyond index 1.\<close>

lemma truncated_write:
  "vsnprintf fs (Some mem) 2 ''hey'' [] =
     (Some 3, \<lparr>outbuff = Some (mem(0 := CHR ''h'', 1 := CHR 0x00)), outbuff_len = 2,
               chars_out = 3, console = []\<rparr>)"
proof -
  let ?out0 = "\<lparr>outbuff = Some mem, outbuff_len = 2, chars_out = 0, console = []\<rparr>"
  let ?out1 = "\<lparr>outbuff = Some (mem(0 := CHR ''h'')), outbuff_len = 2, chars_out = 1, console = []\<rparr>"
  let ?out2 = "\<lparr>outbuff = Some (mem(0 := CHR ''h'', 1 := CHR 0x00)), outbuff_len = 2,
                chars_out = 2, console = []\<rparr>"
  let ?out3 = "\<lparr>outbuff = Some (mem(0 := CHR ''h'', 1 := CHR 0x00)), outbuff_len = 2,
                chars_out = 3, console = []\<rparr>"
  have n: "strlen ''hey'' = 3"
    by (simp add: strlen_def)
  have b0: "xprintf_body fs ''hey'' 3 0 ?out0 [] = Next 1 ?out1 []"
    by (simp add: xprintf_body_def char_at_def yalc_pf_char_out_def)
  have b1: "xprintf_body fs ''hey'' 3 1 ?out1 [] = Next 2 ?out2 []"
    by (simp add: xprintf_body_def char_at_def yalc_pf_char_out_def)
  have b2: "xprintf_body fs ''hey'' 3 2 ?out2 [] = Next 3 ?out3 []"
    by (simp add: xprintf_body_def char_at_def yalc_pf_char_out_def)
  have "xprintf_loop fs ''hey'' 3 0 ?out0 [] = xprintf_loop fs ''hey'' 3 1 ?out1 []"
    by (rule loop_unfold_next [OF _ b0]) simp
  also have "\<dots> = xprintf_loop fs ''hey'' 3 2 ?out2 []"
    by (rule loop_unfold_next [OF _ b1]) simp
  also have "\<dots> = xprintf_loop fs ''hey'' 3 3 ?out3 []"
    by (rule loop_unfold_next [OF _ b2]) simp
  also have "\<dots> = (Some 3, ?out3)"
    by (simp add: loop_unfold_end size_t_to_int_def to_int_def)
  finally show ?thesis
    by (simp only: vsnprintf_def yalc_xprintf_def n)
qed

theorem bounded_write_stores_within_capacity_witness:
  "outbuff (yalc_pf_char_out CHR ''y''
      \<lparr>outbuff = Some (\<lambda>j. CHR ''#''), outbuff_len = 2, chars_out = 1, console = []\<rparr>) =
     Some ((\<lambda>j. CHR ''#'')(1 := CHR 0x00)) \<and>
   (\<exists>mem'. outbuff (snd (vsnprintf wfs (Some (\<lambda>j. CHR ''#'')) 2 ''hey'' [])) = Some mem' \<and>
      (\<forall>j. 2 \<le> j \<longrightarrow> mem' j = CHR ''#''))"
  using bounded_write_stores_within_capacity
    [of "\<lparr>outbuff = Some (\<lambda>j. CHR ''#''), outbuff_len = 2, chars_out = 1, console = []\<rparr>"
        "\<lambda>j. CHR ''#''" "CHR ''y''" wfs 2 "''hey''" "[]" "Some 3"
        "\<lparr>outbuff = Some ((\<lambda>j. CHR ''#'')(0 := CHR ''h'', 1 := CHR 0x00)), outbuff_len = 2,
          chars_out = 3, console = []\<rparr>"]
  by (simp add: truncated_write)

section \<open>Missing terminator\<close>

text \<open>
  C2: a bounded write with capacity \<open>N > 0\<close> should store a terminating zero byte within
  the first \<open>N\<close> bytes.  \<open>yalc_pf_char_out\<close> stores the terminator only when the running
  count reaches \<open>N - 1\<close>, and the loop of \<open>yalc_xprintf\<close> runs over the indices below
  \<open>strlen(fmt)\<close>, so the terminator of the format is never emitted: writing \<open>hi\<close> with
  capacity 10 stores the two letters and leaves every other byte of the destination as it
  was.
\<close>

theorem short_output_not_terminated:
  "vsnprintf fs (Some mem) 10 ''hi'' [] =
     (Some 2, \<lparr>outbuff = Some (mem(0 := CHR ''h'', 1 := CHR ''i'')), outbuff_len = 10,
               chars_out = 2, console = []\<rparr>)"
proof -
  let ?out0 = "\<lparr>outbuff = Some mem, outbuff_len = 10, chars_out = 0, console = []\<rparr>"
  let ?out1 = "\<lparr>outbuff = Some (mem(0 := CHR ''h'')), outbuff_len = 10, chars_out = 1, console = []\<rparr>"
  let ?out2 = "\<lparr>outbuff = Some (mem(0 := CHR ''h'', 1 := CHR ''i'')), outbuff_len = 10,
                chars_out = 2, console = []\<rparr>"
  have n: "strlen ''hi'' = 2"
    by (simp add: strlen_def)
  have b0: "xprintf_body fs ''hi'' 2 0 ?out0 [] = Next 1 ?out1 []"
    by (simp add: xprintf_body_def char_at_def yalc_pf_char_out_def)
  have b1: "xprintf_body fs ''hi'' 2 1 ?out1 [] = Next 2 ?out2 []"
    by (simp add: xprintf_body_def char_at_def yalc_pf_char_out_def)
  have "xprintf_loop fs ''hi'' 2 0 ?out0 [] = xprintf_loop fs ''hi'' 2 1 ?out1 []"
    by (rule loop_unfold_next [OF _ b0]) simp
  also have "\<dots> = xprintf_loop fs ''hi'' 2 2 ?out2 []"
    by (rule loop_unfold_next [OF _ b1]) simp
  also have "\<dots> = (Some 2, ?out2)"
    by (simp add: loop_unfold_end size_t_to_int_def to_int_def)
  finally show ?thesis
    by (simp only: vsnprintf_def yalc_xprintf_def n)
qed

text \<open>
  The other half of C2 holds: the running count, and with it the returned value, does not
  depend on the destination or its capacity, so a bounded write returns what the unbounded
  write returns.
\<close>

lemma count_char_out: "chars_out (yalc_pf_char_out c out) = (chars_out out + 1) mod 2 ^ 64"
  by (simp add: yalc_pf_char_out_def Let_def split: option.splits)

lemma count_emit_chars:
  assumes "chars_out out1 = chars_out out2"
  shows "chars_out (emit_chars s out1) = chars_out (emit_chars s out2)"
  using assms
proof (induction s arbitrary: out1 out2)
  case Nil
  then show ?case by simp
next
  case (Cons c cs)
  have "chars_out (yalc_pf_char_out c out1) = chars_out (yalc_pf_char_out c out2)"
    unfolding count_char_out using Cons.prems by simp
  then have "chars_out (emit_chars cs (yalc_pf_char_out c out1)) =
             chars_out (emit_chars cs (yalc_pf_char_out c out2))"
    by (rule Cons.IH)
  then show ?case
    unfolding emit_chars.simps .
qed

lemma count_field_out:
  assumes "chars_out out1 = chars_out out2"
  shows "chars_out (yalc_pf_field_out fld fi out1) = chars_out (yalc_pf_field_out fld fi out2)"
  unfolding field_out_eq_emit using assms by (rule count_emit_chars)

lemma count_putll:
  assumes "chars_out out1 = chars_out out2"
  shows "chars_out (yalc_putll val fi out1) = chars_out (yalc_putll val fi out2)"
  unfolding yalc_putll_def Let_def case_prod_beta by (rule count_field_out [OF assms])

lemma count_putd:
  assumes "chars_out out1 = chars_out out2"
  shows "map_option chars_out (yalc_putd d fi out1) = map_option chars_out (yalc_putd d fi out2)"
proof (cases "putd_render d fi")
  case None
  then show ?thesis by (simp add: yalc_putd_def)
next
  case (Some st)
  then show ?thesis
    using count_field_out [OF assms, of _ "pd_fi st"] by (simp add: yalc_putd_def)
qed

lemma count_print_int:
  assumes "chars_out out1 = chars_out out2"
  shows "step_count (print_int fs fi va out1 i) = step_count (print_int fs fi va out2 i)"
  using assms count_putll [OF assms]
  by (simp add: print_int_def split: outcome.splits list.splits va_arg.splits)

lemma count_print_double:
  assumes "chars_out out1 = chars_out out2"
  shows "step_count (print_double fi va out1 i) = step_count (print_double fi va out2 i)"
proof -
  have "step_count (case yalc_putd d fi out1 of None \<Rightarrow> Stop None out1 | Some out' \<Rightarrow> Next (i + 1) out' va') =
        step_count (case yalc_putd d fi out2 of None \<Rightarrow> Stop None out2 | Some out' \<Rightarrow> Next (i + 1) out' va')"
    for d va'
    using count_putd [OF assms, of d fi] assms
    by (cases "yalc_putd d fi out1"; cases "yalc_putd d fi out2") simp_all
  then show ?thesis
    using assms count_field_out [OF assms]
    by (simp add: print_double_def split: list.splits va_arg.splits)
qed

lemma count_print_char:
  assumes "chars_out out1 = chars_out out2"
  shows "step_count (print_char fi va out1 i) = step_count (print_char fi va out2 i)"
  using assms count_field_out [OF assms]
  by (simp add: print_char_def split: list.splits va_arg.splits)

lemma count_print_string:
  assumes "chars_out out1 = chars_out out2"
  shows "step_count (print_string fi va out1 i) = step_count (print_string fi va out2 i)"
  using assms count_field_out [OF assms]
  by (simp add: print_string_def Let_def split: list.splits va_arg.splits option.splits)

lemma count_body:
  assumes "chars_out out1 = chars_out out2"
  shows "step_count (xprintf_body fs fmt fmt_len i out1 va) = step_count (xprintf_body fs fmt fmt_len i out2 va)"
  using assms count_print_int [OF assms] count_print_double [OF assms] count_print_char [OF assms]
    count_print_string [OF assms]
  by (simp add: xprintf_body_def Let_def count_char_out split: outcome.splits prod.splits)

lemma count_loop:
  "chars_out out1 = chars_out out2 \<Longrightarrow>
   fst (xprintf_loop fs fmt fmt_len i out1 va) = fst (xprintf_loop fs fmt fmt_len i out2 va) \<and>
   chars_out (snd (xprintf_loop fs fmt fmt_len i out1 va)) =
   chars_out (snd (xprintf_loop fs fmt fmt_len i out2 va))"
proof (induction fs fmt fmt_len i out1 va arbitrary: out2 rule: xprintf_loop.induct)
  case (1 fs fmt fmt_len i out1 va)
  show ?case
  proof (cases "i < fmt_len")
    case False
    with "1.prems" show ?thesis by (simp add: xprintf_loop.simps)
  next
    case True
    note b = count_body [OF "1.prems", of fs fmt fmt_len i va]
    show ?thesis
    proof (cases "xprintf_body fs fmt fmt_len i out1 va")
      case (Next i1 o1 va1)
      with b obtain o2 where n2: "xprintf_body fs fmt fmt_len i out2 va = Next i1 o2 va1"
        and c: "chars_out o1 = chars_out o2"
        by (cases "xprintf_body fs fmt fmt_len i out2 va") auto
      from "1.IH" [OF True Next c] True Next n2 show ?thesis
        by (simp add: xprintf_loop.simps [of fs fmt fmt_len i])
    next
      case (Stop r o1)
      with b obtain o2 where n2: "xprintf_body fs fmt fmt_len i out2 va = Stop r o2"
        and c: "chars_out o1 = chars_out o2"
        by (cases "xprintf_body fs fmt fmt_len i out2 va") auto
      from True Stop n2 c show ?thesis
        by (simp add: xprintf_loop.simps [of fs fmt fmt_len i])
    qed
  qed
qed

lemma bounded_count_is_unbounded_count:
  "fst (vsnprintf fs buf N fmt va) = fst (vsprintf fs buf' fmt va)"
  unfolding vsprintf_def vsnprintf_def yalc_xprintf_def
  by (rule count_loop [THEN conjunct1]) simp

section \<open>The parser and the conversion-type bits\<close>

lemma type_set_flag:
  "flags (set_flag f fi) AND TFLAG_MASK = (flags fi AND TFLAG_MASK) OR (f AND TFLAG_MASK)"
  by (simp add: set_flag_def bit.conj_disj_distrib2)

lemma and_swap: "((a :: 32 word) AND b) AND c = (a AND c) AND b"
  by (simp only: and.assoc and.commute [of b c])

lemma type_clear_flag:
  "flags fi AND TFLAG_MASK = 0 \<Longrightarrow> flags (clear_flag f fi) AND TFLAG_MASK = 0"
  by (simp add: clear_flag_def and_swap [of "flags fi" "NOT f"])

lemma set_flag_fields [simp]:
  "num_pad (set_flag f fi) = num_pad fi" "suffix_pad (set_flag f fi) = suffix_pad fi"
  "precision (set_flag f fi) = precision fi" "width (set_flag f fi) = width fi"
  "radix (set_flag f fi) = radix fi" "int_bitlen (set_flag f fi) = int_bitlen fi"
  by (simp_all add: set_flag_def)

lemma clear_flag_fields [simp]:
  "num_pad (clear_flag f fi) = num_pad fi" "suffix_pad (clear_flag f fi) = suffix_pad fi"
  "precision (clear_flag f fi) = precision fi" "width (clear_flag f fi) = width fi"
  "radix (clear_flag f fi) = radix fi" "int_bitlen (clear_flag f fi) = int_bitlen fi"
  by (simp_all add: clear_flag_def)

lemma pads_clear_set_flag: "f AND 0x1C000000 = 0 \<Longrightarrow> pads_clear (set_flag f fi) = pads_clear fi"
  by (simp add: pads_clear_def set_flag_def bit.conj_disj_distrib2)

lemma pads_clear_clear_flag: "pads_clear fi \<Longrightarrow> pads_clear (clear_flag f fi)"
  by (simp add: pads_clear_def clear_flag_def and_swap [of "flags fi" "NOT f"])

lemma parse_inv_set_flag:
  "parse_inv fi \<Longrightarrow> f AND TFLAG_MASK = 0 \<Longrightarrow> f AND 0x1C000000 = 0 \<Longrightarrow> parse_inv (set_flag f fi)"
  by (simp add: parse_inv_def pads_clear_set_flag type_set_flag)

lemma parse_inv_clear_flag: "parse_inv fi \<Longrightarrow> parse_inv (clear_flag f fi)"
  by (simp add: parse_inv_def pads_clear_clear_flag type_clear_flag)

lemma parse_inv_fields:
  "parse_inv fi \<Longrightarrow> parse_inv (fi\<lparr>width := w\<rparr>)"
  "parse_inv fi \<Longrightarrow> parse_inv (fi\<lparr>precision := to_int p\<rparr>)"
  "parse_inv fi \<Longrightarrow> parse_inv (fi\<lparr>int_bitlen := b\<rparr>)"
  by (simp_all add: parse_inv_def pads_clear_def to_int_range)

lemma va_arg_int_range:
  "va_arg_int va = Some (x, va') \<Longrightarrow> - 2147483648 \<le> x \<and> x \<le> INT_MAX"
  by (cases va rule: va_arg_int.cases) (auto simp: to_int_range)

lemma parse_inv_precision_arg:
  "parse_inv fi \<Longrightarrow> va_arg_int va = Some (x, va') \<Longrightarrow> parse_inv (fi\<lparr>precision := x\<rparr>)"
  by (auto simp: parse_inv_def pads_clear_def dest: va_arg_int_range)

lemmas parse_inv_intros = parse_inv_set_flag parse_inv_clear_flag parse_inv_fields

lemma length_letter_inv:
  "length_letter f st = Continue st' \<Longrightarrow> f AND TFLAG_MASK = 0 \<Longrightarrow> f AND 0x1C000000 = 0 \<Longrightarrow>
   parse_inv (ps_fi st) \<Longrightarrow> parse_inv (ps_fi st')"
  by (auto simp: length_letter_def upd_fi_def parse_inv_intros split: if_splits)

lemma parse_digit_inv:
  "parse_digit d st = Continue st' \<Longrightarrow> parse_inv (ps_fi st) \<Longrightarrow> parse_inv (ps_fi st')"
  by (auto simp: parse_digit_def Let_def parse_inv_intros split: if_splits)

lemma parse_star_inv:
  "parse_star st = Continue st' \<Longrightarrow> parse_inv (ps_fi st) \<Longrightarrow> parse_inv (ps_fi st')"
  by (auto simp: parse_star_def Let_def parse_inv_intros parse_inv_precision_arg
      split: if_splits option.splits)

lemma helper_no_break:
  "length_letter f st \<noteq> Break st'" "length_letter f st \<noteq> Skip st'"
  "parse_digit d st \<noteq> Break st'" "parse_digit d st \<noteq> Skip st'"
  "parse_star st \<noteq> Break st'" "parse_star st \<noteq> Skip st'"
  by (auto simp: length_letter_def parse_digit_def parse_star_def Let_def split: if_splits option.splits)

lemma parse_switch_default:
  "c \<notin> set switch_chars \<Longrightarrow> parse_switch c nc st = Continue st"
  by (simp add: switch_chars_def parse_switch_def)

lemma switch_chars_cases:
  "c \<in> set switch_chars \<Longrightarrow>
   c = CHR 0x27 \<or> c = CHR ''#'' \<or> c = CHR ''0'' \<or> c = CHR ''-'' \<or> c = CHR '' '' \<or> c = CHR ''+'' \<or>
   c \<in> set ''123456789'' \<or> c = CHR ''.'' \<or> c = CHR ''*'' \<or> c = CHR ''$'' \<or> c = CHR ''h'' \<or>
   c = CHR ''l'' \<or> c = CHR ''L'' \<or> c = CHR ''j'' \<or> c = CHR ''z'' \<or> c = CHR ''t'' \<or> c = CHR ''w'' \<or>
   c = CHR ''c'' \<or> c = CHR ''s'' \<or> c = CHR ''i'' \<or> c = CHR ''d'' \<or> c = CHR ''u'' \<or> c = CHR ''X'' \<or>
   c = CHR ''x'' \<or> c = CHR ''B'' \<or> c = CHR ''b'' \<or> c = CHR ''p'' \<or> c = CHR ''o'' \<or> c = CHR ''E'' \<or>
   c = CHR ''e'' \<or> c = CHR ''F'' \<or> c = CHR ''f'' \<or> c = CHR ''G'' \<or> c = CHR ''g'' \<or> c = CHR ''A'' \<or>
   c = CHR ''a'' \<or> c = CHR ''n'' \<or> c = CHR ''m''"
  by (simp add: switch_chars_def)

lemma parse_switch_digit:
  assumes "c \<in> set ''123456789''"
  shows "parse_switch c nc st = parse_digit (of_char c - 48) st"
proof -
  from assms have "c = CHR ''1'' \<or> c = CHR ''2'' \<or> c = CHR ''3'' \<or> c = CHR ''4'' \<or> c = CHR ''5'' \<or>
      c = CHR ''6'' \<or> c = CHR ''7'' \<or> c = CHR ''8'' \<or> c = CHR ''9''"
    by simp
  then show ?thesis
    by (elim disjE) (simp_all add: parse_switch_def)
qed

lemma parse_switch_continue:
  assumes "parse_switch c nc st = Continue st' \<or> parse_switch c nc st = Skip st'" "parse_inv (ps_fi st)"
  shows "parse_inv (ps_fi st')"
proof (cases "c \<in> set switch_chars")
  case False
  then show ?thesis using assms by (simp add: parse_switch_default)
next
  case True
  from switch_chars_cases [OF True] show ?thesis
    using assms
    apply (elim disjE)
    apply (simp_all add: parse_switch_digit)
    apply (simp_all add: parse_switch_def Let_def upd_fi_def parse_inv_intros helper_no_break split: if_splits)
    apply (auto dest: length_letter_inv parse_digit_inv parse_star_inv simp: helper_no_break parse_inv_intros)
    done
qed

lemma type_after_set:
  "flags fi AND TFLAG_MASK = 0 \<Longrightarrow> flags (set_flag f fi) AND TFLAG_MASK = f AND TFLAG_MASK"
  by (simp add: type_set_flag)

lemma pads_clear_radix [simp]: "pads_clear (fi\<lparr>radix := r\<rparr>) = pads_clear fi"
  by (simp add: pads_clear_def)

lemma parse_switch_break:
  assumes "parse_switch c nc st = Break st'" "parse_inv (ps_fi st)"
  shows "conv_type (flags (ps_fi st') AND TFLAG_MASK) \<and> pads_clear (ps_fi st')"
proof (cases "c \<in> set switch_chars")
  case False
  then show ?thesis using assms by (simp add: parse_switch_default)
next
  case True
  from switch_chars_cases [OF True] show ?thesis
    using assms
    apply (elim disjE)
    apply (simp_all add: parse_switch_digit helper_no_break)
    apply (simp_all add: parse_switch_def Let_def helper_no_break split: if_splits)
    apply (auto simp: upd_fi_def parse_inv_def type_after_set conv_type_def pads_clear_set_flag)
    done
qed

lemma helper_return:
  "length_letter f st = Return e \<Longrightarrow> e = - EINVAL"
  "parse_digit d st = Return e \<Longrightarrow> e = - EINVAL"
  "parse_star st = Return e \<Longrightarrow> e = - EINVAL"
  by (auto simp: length_letter_def parse_digit_def parse_star_def Let_def split: if_splits option.splits)

lemma parse_switch_return:
  assumes "parse_switch c nc st = Return e"
  shows "e = - EINVAL \<or> e = - ENOTSUP"
proof (cases "c \<in> set switch_chars")
  case False
  then show ?thesis using assms by (simp add: parse_switch_default)
next
  case True
  from switch_chars_cases [OF True] show ?thesis
    using assms
    apply (elim disjE)
    apply (simp_all add: parse_switch_digit)
    apply (simp_all add: parse_switch_def Let_def split: if_splits)
    apply (auto dest: helper_return)
    done
qed

lemma parse_loop_ok:
  "parse_inv (ps_fi st) \<Longrightarrow> parse_loop fmt n i st = Ok (j, st') \<Longrightarrow>
   pads_clear (ps_fi st') \<and>
   (if int j < n then conv_type (flags (ps_fi st') AND TFLAG_MASK)
    else flags (ps_fi st') AND TFLAG_MASK = 0)"
proof (induction fmt n i st rule: parse_loop.induct)
  case (1 fmt fmt_len i st)
  show ?case
  proof (cases "int i < fmt_len")
    case False
    with "1.prems" show ?thesis
      by (simp add: parse_loop.simps parse_inv_def)
  next
    case True
    let ?step = "parse_switch (char_at fmt i) (char_at fmt (i + 1)) st"
    show ?thesis
    proof (cases ?step)
      case (Continue st1)
      then have "parse_inv (ps_fi st1)"
        using parse_switch_continue "1.prems"(1) by blast
      moreover have "parse_loop fmt fmt_len (i + 1) st1 = Ok (j, st')"
        using "1.prems"(2) True Continue by (simp add: parse_loop.simps)
      ultimately show ?thesis
        using "1.IH"(1) [OF True Continue] by simp
    next
      case (Skip st1)
      then have "parse_inv (ps_fi st1)"
        using parse_switch_continue "1.prems"(1) by blast
      moreover have "parse_loop fmt fmt_len (i + 2) st1 = Ok (j, st')"
        using "1.prems"(2) True Skip by (simp add: parse_loop.simps)
      ultimately show ?thesis
        using "1.IH"(2) [OF True Skip] by simp
    next
      case (Break st1)
      then have "j = i \<and> st' = st1"
        using "1.prems"(2) True by (simp add: parse_loop.simps split: if_splits)
      then show ?thesis
        using parse_switch_break [OF Break "1.prems"(1)] True by simp
    next
      case (Return e)
      then show ?thesis
        using "1.prems"(2) True by (simp add: parse_loop.simps)
    next
      case Undef
      then show ?thesis
        using "1.prems"(2) True by (simp add: parse_loop.simps)
    qed
  qed
qed

lemma parse_loop_fail:
  "parse_loop fmt n i st = Fail e \<Longrightarrow> e = - EINVAL \<or> e = - ENOTSUP"
proof (induction fmt n i st rule: parse_loop.induct)
  case (1 fmt fmt_len i st)
  then show ?case
    by (subst (asm) parse_loop.simps)
       (auto split: if_splits step.splits dest: parse_switch_return)
qed

lemma and_not_absorb:
  fixes f g a :: "32 word"
  assumes "g AND f = 0"
  shows "(a AND NOT f) AND g = a AND g"
proof (rule bit_word_eqI)
  fix n
  assume n: "n < LENGTH(32)"
  from assms have "bit (g AND f) n = bit (0 :: 32 word) n" by simp
  then have "\<not> (bit g n \<and> bit f n)" by (simp add: bit_and_iff)
  then show "bit ((a AND NOT f) AND g) n = bit (a AND g) n"
    using n by (auto simp: bit_and_iff bit_not_iff)
qed

lemma and_not_self: "((a :: 32 word) AND NOT f) AND f = 0"
  by (simp add: and.assoc)

lemma has_flag_clear_other: "g AND f = 0 \<Longrightarrow> has_flag (clear_flag f fi) g = has_flag fi g"
  using and_not_absorb [of g f "flags fi"] by (simp add: has_flag_def clear_flag_def)

lemma has_flag_clear_self: "\<not> has_flag (clear_flag f fi) f"
  using and_not_self [of "flags fi" f] by (simp add: has_flag_def clear_flag_def)

lemma type_clear_zero_pad:
  "flags (clear_flag FFLAG_ZERO_PAD fi) AND TFLAG_MASK = flags fi AND TFLAG_MASK"
  using and_not_absorb [of TFLAG_MASK FFLAG_ZERO_PAD "flags fi"] by (simp add: clear_flag_def)

lemma parse_finish_ok:
  assumes "parse_finish fi = Ok fi'"
  shows "flags fi' AND TFLAG_MASK = flags fi AND TFLAG_MASK" "pads_clear fi' = pads_clear fi"
    "radix fi' = radix fi" "precision fi' = precision fi"
    "has_flag fi' SFLAG_HAS_PREC = has_flag fi SFLAG_HAS_PREC"
    "has_flag fi' FFLAG_ALT = has_flag fi FFLAG_ALT"
    "has_flag fi' SFLAG_IS_SIGNED = has_flag fi SFLAG_IS_SIGNED"
    "has_flag fi' TFLAG_INT \<Longrightarrow> has_flag fi' SFLAG_HAS_PREC \<Longrightarrow> \<not> has_flag fi' FFLAG_ZERO_PAD"
proof -
  define fi1 where "fi1 = (if has_flag fi TFLAG_INT \<and> has_flag fi FFLAG_ZERO_PAD \<and> has_flag fi SFLAG_HAS_PREC
                    then clear_flag FFLAG_ZERO_PAD fi else fi)"
  have fi': "fi' = (if has_flag fi1 FFLAG_ZERO_PAD \<and> has_flag fi1 FFLAG_LEFT_ADJ
                    then clear_flag FFLAG_ZERO_PAD fi1 else fi1)"
    using assms by (auto simp: parse_finish_def Let_def fi1_def split: if_splits)
  show "flags fi' AND TFLAG_MASK = flags fi AND TFLAG_MASK"
    by (simp add: fi' fi1_def type_clear_zero_pad)
  have tr: "flags (clear_flag FFLAG_ZERO_PAD x) AND 0x1C000000 = flags x AND 0x1C000000" for x
    using and_not_absorb [of "0x1C000000" FFLAG_ZERO_PAD "flags x"] by (simp add: clear_flag_def)
  show "pads_clear fi' = pads_clear fi" "radix fi' = radix fi" "precision fi' = precision fi"
    by (simp_all add: fi' fi1_def pads_clear_def tr)
  show "has_flag fi' SFLAG_HAS_PREC = has_flag fi SFLAG_HAS_PREC"
    "has_flag fi' FFLAG_ALT = has_flag fi FFLAG_ALT"
    "has_flag fi' SFLAG_IS_SIGNED = has_flag fi SFLAG_IS_SIGNED"
    by (simp_all add: fi' fi1_def has_flag_clear_other)
  have int: "has_flag fi' TFLAG_INT = has_flag fi TFLAG_INT"
    by (simp add: fi' fi1_def has_flag_clear_other)
  have prec: "has_flag fi' SFLAG_HAS_PREC = has_flag fi SFLAG_HAS_PREC"
    by (simp add: fi' fi1_def has_flag_clear_other)
  show "\<not> has_flag fi' FFLAG_ZERO_PAD" if "has_flag fi' TFLAG_INT" "has_flag fi' SFLAG_HAS_PREC"
  proof -
    from that int prec have "has_flag fi TFLAG_INT" "has_flag fi SFLAG_HAS_PREC" by simp_all
    then have "\<not> has_flag fi1 FFLAG_ZERO_PAD"
      by (simp add: fi1_def has_flag_clear_self)
    then show ?thesis by (simp add: fi')
  qed
qed

lemma parse_finish_fail: "parse_finish fi = Fail e \<Longrightarrow> e = - EINVAL"
  by (auto simp: parse_finish_def Let_def split: if_splits)

lemma parse_inv_clear: "parse_inv yalc_clear_fi"
  by (simp add: parse_inv_def pads_clear_def yalc_clear_fi_def)

lemma parse_format_fail:
  "yalc_pf_parse_format fmt fmt_len va = Fail e \<Longrightarrow> e = - EINVAL \<or> e = - ENOTSUP"
  by (auto simp: yalc_pf_parse_format_def split: outcome.splits prod.splits
      dest: parse_loop_fail parse_finish_fail)

lemma parse_format_ok:
  assumes "yalc_pf_parse_format fmt fmt_len va = Ok (i, fi, va')"
  shows "pads_clear fi"
    and "has_flag fi TFLAG_INT \<Longrightarrow> has_flag fi SFLAG_HAS_PREC \<Longrightarrow> \<not> has_flag fi FFLAG_ZERO_PAD"
proof -
  let ?st0 = "\<lparr>ps_fi = yalc_clear_fi, width_from_arg = False, prec_from_arg = False,
              has_bitlen = False, ps_va = va\<rparr>"
  from assms obtain st where
    loop: "parse_loop fmt fmt_len 1 ?st0 = Ok (i, st)" and fin: "parse_finish (ps_fi st) = Ok fi"
    by (auto simp: yalc_pf_parse_format_def split: outcome.splits prod.splits)
  have "parse_inv (ps_fi ?st0)" by (simp add: parse_inv_clear)
  from parse_loop_ok [OF this loop] parse_finish_ok(2) [OF fin]
  show "pads_clear fi" by simp
  show "\<not> has_flag fi FFLAG_ZERO_PAD" if "has_flag fi TFLAG_INT" "has_flag fi SFLAG_HAS_PREC"
    using parse_finish_ok(8) [OF fin that] .
qed






section \<open>A failed parse aborts the write\<close>

lemma body_parse_failure:
  assumes "char_at fmt i = CHR ''%''" "i \<noteq> n - 1" "char_at fmt (i + 1) \<noteq> CHR ''%''"
    and "yalc_pf_parse_format (drop i fmt) (size_t_to_int (n - i)) va = Fail e"
  shows "xprintf_body fs fmt n i out va = Stop (Some e) out"
  using assms by (simp add: xprintf_body_def)

text \<open>
  C8: when the loop of \<open>yalc_xprintf\<close> reaches a \<open>%\<close> that starts a directive (not the
  last character, not followed by another \<open>%\<close>) on which \<open>yalc_pf_parse_format\<close> fails
  with the status \<open>e\<close>, the write returns \<open>e\<close>, which is negative, at once: the sink is the
  one the loop had reached, so nothing is emitted for this directive or after it.
\<close>

theorem parse_failure_aborts:
  assumes "xprintf_reaches fs fmt (0, out0, va0) (i, out, va)"
    and "i < strlen fmt" "char_at fmt i = CHR ''%''" "i \<noteq> strlen fmt - 1"
    and "char_at fmt (i + 1) \<noteq> CHR ''%''"
    and "yalc_pf_parse_format (drop i fmt) (size_t_to_int (strlen fmt - i)) va = Fail e"
  shows "yalc_xprintf fs out0 fmt va0 = (Some e, out) \<and> e < 0"
proof -
  have "xprintf_body fs fmt (strlen fmt) i out va = Stop (Some e) out"
    using assms(3-6) by (rule body_parse_failure)
  then have "xprintf_loop fs fmt (strlen fmt) i out va = (Some e, out)"
    using assms(2) by (rule loop_unfold_stop [rotated])
  moreover have "xprintf_loop fs fmt (strlen fmt) 0 out0 va0 = xprintf_loop fs fmt (strlen fmt) i out va"
    using reaches_loop [OF assms(1)] by simp
  moreover have "e < 0"
    using parse_format_fail [OF assms(6)] by auto
  ultimately show ?thesis
    by (simp add: yalc_xprintf_def)
qed

text \<open>Printing \<open>ok%n\<close>: the two letters are emitted, then \<open>-ENOTSUP\<close> is returned.\<close>

lemma strlen_witness: "strlen ''ok%n'' = 4"
  by (simp add: strlen_def)

lemma parse_n: "yalc_pf_parse_format ''%n'' 2 [] = Fail (- ENOTSUP)"
  by code_simp

theorem parse_failure_aborts_witness:
  "vprintf wfs [] ''ok%n'' [] =
     (Some (- ENOTSUP), \<lparr>outbuff = None, outbuff_len = 0, chars_out = 2, console = ''ok''\<rparr>)"
proof -
  let ?out0 = "\<lparr>outbuff = None, outbuff_len = 0, chars_out = 0, console = []\<rparr>"
  let ?out1 = "\<lparr>outbuff = None, outbuff_len = 0, chars_out = 1, console = ''o''\<rparr>"
  let ?out2 = "\<lparr>outbuff = None, outbuff_len = 0, chars_out = 2, console = ''ok''\<rparr>"
  have b0: "xprintf_body wfs ''ok%n'' (strlen ''ok%n'') 0 ?out0 [] = Next 1 ?out1 []"
    by (simp add: xprintf_body_def char_at_def yalc_pf_char_out_def)
  have b1: "xprintf_body wfs ''ok%n'' (strlen ''ok%n'') 1 ?out1 [] = Next 2 ?out2 []"
    by (simp add: xprintf_body_def char_at_def yalc_pf_char_out_def)
  have r0: "xprintf_reaches wfs ''ok%n'' (0, ?out0, []) (0, ?out0, [])"
    by (rule reaches_start)
  have r1: "xprintf_reaches wfs ''ok%n'' (0, ?out0, []) (1, ?out1, [])"
    by (rule reaches_step [OF r0 _ b0]) (simp add: strlen_witness)
  have r2: "xprintf_reaches wfs ''ok%n'' (0, ?out0, []) (2, ?out2, [])"
    by (rule reaches_step [OF r1 _ b1]) (simp add: strlen_witness)
  have p: "yalc_pf_parse_format (drop 2 ''ok%n'') (size_t_to_int (strlen ''ok%n'' - 2)) [] = Fail (- ENOTSUP)"
    by (simp add: strlen_witness size_t_to_int_def to_int_def parse_n)
  from parse_failure_aborts [OF r2 _ _ _ _ p]
  show ?thesis
    by (simp add: vprintf_def strlen_witness char_at_def)
qed

section \<open>Integer precision\<close>

lemma has_flag_set_other: "f AND g = 0 \<Longrightarrow> has_flag (set_flag f fi) g = has_flag fi g"
  by (simp add: has_flag_def set_flag_def bit.conj_disj_distrib2)

lemma has_flag_set_self: "f \<noteq> 0 \<Longrightarrow> has_flag (set_flag f fi) f"
  by (simp add: has_flag_def set_flag_def bit.conj_disj_distrib2)

lemma pad_flags_reverse_num:
  "drop_bit 1 (w OR TRFLAG_REVERSE_NUM) AND 3 = drop_bit 1 (w :: 32 word) AND 3"
  by (simp add: drop_bit_or bit.conj_disj_distrib2) 

lemma pad_flags_not_zero_pad:
  assumes "(w :: 32 word) AND FFLAG_ZERO_PAD = 0"
  shows "drop_bit 1 w AND 3 \<noteq> 1"
proof
  assume "drop_bit 1 w AND 3 = 1"
  then have "bit (drop_bit 1 w AND 3) 0 = bit (1 :: 32 word) 0" by simp
  then have "bit w 1" by (simp add: bit_and_iff bit_drop_bit_eq)
  moreover from assms have "bit (w AND 2) 1 = bit (0 :: 32 word) 1" by simp
  ultimately show False by (simp add: bit_and_iff)
qed

lemma tr_clear:
  assumes "(w :: 32 word) AND 0x1C000000 = 0"
  shows "w AND TRFLAG_REVERSE_PREFIX = 0" "w AND TRFLAG_REVERSE_NUM = 0" "w AND TRFLAG_REVERSE_SUFFIX = 0"
proof -
  have "w AND TRFLAG_REVERSE_PREFIX = (w AND 0x1C000000) AND TRFLAG_REVERSE_PREFIX"
    by (simp add: and.assoc)
  then show "w AND TRFLAG_REVERSE_PREFIX = 0" using assms by simp
  have "w AND TRFLAG_REVERSE_NUM = (w AND 0x1C000000) AND TRFLAG_REVERSE_NUM"
    by (simp add: and.assoc)
  then show "w AND TRFLAG_REVERSE_NUM = 0" using assms by simp
  have "w AND TRFLAG_REVERSE_SUFFIX = (w AND 0x1C000000) AND TRFLAG_REVERSE_SUFFIX"
    by (simp add: and.assoc)
  then show "w AND TRFLAG_REVERSE_SUFFIX = 0" using assms by simp
qed

lemma itora_loop_nonempty: "itora_loop r h v \<noteq> []"
  by (subst itora_loop.simps) simp

lemma itora_loop_zero: "itora_loop r h 0 = ''0''"
  by (subst itora_loop.simps) (simp add: digit_char_def char_of_eq_iff)

lemma field_text_number:
  assumes "suffix_pad fi = 0" "0 \<le> num_pad fi" "num_pad fi \<le> INT_MAX" "flags fi AND 0x1C000000 = 0"
    and "\<not> has_flag fi FFLAG_ZERO_PAD"
  shows "\<exists>a b. field_text \<lparr>inbuff = ds, prefix = pfx, suffix = [], sign_char = CHR 0x00\<rparr>
            ((set_flag TRFLAG_REVERSE_NUM fi)\<lparr>precision := p, num_pad := - num_pad fi\<rparr>) =
          replicate a CHR '' '' @ pfx @ replicate (nat (num_pad fi)) CHR ''0'' @ rev ds @ replicate b CHR '' ''"
proof -
  let ?fld = "\<lparr>inbuff = ds, prefix = pfx, suffix = [], sign_char = CHR 0x00\<rparr>"
  let ?fi = "(set_flag TRFLAG_REVERSE_NUM fi)\<lparr>precision := p, num_pad := - num_pad fi\<rparr>"
  have fl: "flags ?fi = flags fi OR TRFLAG_REVERSE_NUM"
    by (simp add: set_flag_def)
  have pf: "drop_bit 1 (flags ?fi) AND 3 = drop_bit 1 (flags fi) AND 3"
    unfolding fl by (rule pad_flags_reverse_num)
  have n1: "drop_bit 1 (flags ?fi) AND 3 \<noteq> 1"
    unfolding pf using assms(5) by (intro pad_flags_not_zero_pad) (simp add: has_flag_def)
  have rp: "\<not> has_flag ?fi TRFLAG_REVERSE_PREFIX"
    using tr_clear(1) [OF assms(4)] by (simp add: has_flag_def fl bit.conj_disj_distrib2)
  have rn: "has_flag ?fi TRFLAG_REVERSE_NUM"
    by (simp add: has_flag_def fl bit.conj_disj_distrib2)
  have pre: "to_size_t (prebuf_pad_of ?fi) = nat (num_pad fi)"
  proof (cases "num_pad fi = 0")
    case True
    then show ?thesis by (simp add: prebuf_pad_of_def to_size_t_def)
  next
    case False
    then have "prebuf_pad_of ?fi = to_int (num_pad fi)"
      using assms(2) by (simp add: prebuf_pad_of_def)
    also have "\<dots> = num_pad fi"
      using assms(2,3) by (simp add: to_int_id)
    finally show ?thesis
      using assms(2,3) by (simp add: to_size_t_id)
  qed
  have post: "to_size_t (postbuf_pad_of ?fi) = 0"
    using assms(2) by (auto simp: postbuf_pad_of_def to_size_t_def)
  have sp: "to_size_t (suffix_pad fi) = 0"
    using assms(1) by (simp add: to_size_t_def)
  define k where "k = to_size_t (width_pad_of ?fld ?fi)"
  have "field_text ?fld ?fi =
        (if drop_bit 1 (flags ?fi) AND 3 = 0
         then replicate k CHR '' '' @ pfx @ replicate (nat (num_pad fi)) CHR ''0'' @ rev ds
         else pfx @ replicate (nat (num_pad fi)) CHR ''0'' @ rev ds @ replicate k CHR '' '')"
    using n1 rp rn by (simp add: field_text_def Let_def pre post sp k_def del: replicate_0)
  then show ?thesis
  proof (cases "drop_bit 1 (flags ?fi) AND 3 = 0")
    case True
    with \<open>field_text ?fld ?fi = _\<close> show ?thesis
      by (intro exI [of _ k] exI [of _ 0]) simp
  next
    case False
    with \<open>field_text ?fld ?fi = _\<close> show ?thesis
      by (intro exI [of _ 0] exI [of _ k]) simp
  qed
qed

lemma has_flag_set_reverse_num:
  "f AND TRFLAG_REVERSE_NUM = 0 \<Longrightarrow> has_flag (set_flag TRFLAG_REVERSE_NUM fi) f = has_flag fi f"
  by (simp add: has_flag_def set_flag_def bit.conj_disj_distrib2 and.commute [of TRFLAG_REVERSE_NUM f])

lemma putll_precision_pad:
  assumes "pads_clear fi" "\<not> has_flag fi FFLAG_ZERO_PAD" "has_flag fi SFLAG_HAS_PREC"
    and "length (natural_digits val fi) < nat (precision fi)"
  shows "\<exists>a b. \<forall>out. yalc_putll val fi out =
           emit_chars (replicate a CHR '' '' @ putll_prefix val fi @
             replicate (nat (precision fi) - length (natural_digits val fi)) CHR ''0'' @
             natural_digits val fi @ replicate b CHR '' '') out"
proof -
  define nb where "nb = itora_loop (radix fi) (if has_flag fi SFLAG_UPPERCASE then CHR ''A'' else CHR ''a'')
                          (putll_magnitude val fi)"
  define fi1 where "fi1 = set_flag TRFLAG_REVERSE_NUM fi"
  define d where "d = precision fi - int (length nb)"
  have it: "yalc_itora (putll_magnitude val fi) fi = (nb, fi1)"
    by (simp add: yalc_itora_def nb_def fi1_def)
  have nd: "natural_digits val fi = rev nb"
    by (simp add: natural_digits_def it)
  have pc: "num_pad fi = 0" "suffix_pad fi = 0" "precision fi \<le> INT_MAX" "flags fi AND 0x1C000000 = 0"
    using assms(1) by (simp_all add: pads_clear_def)
  have len: "length nb < nat (precision fi)"
    using assms(4) nd by simp
  then have pos: "0 < precision fi" by simp
  have P: "to_size_t (precision fi) = nat (precision fi)"
    using pos pc(3) by (simp add: to_size_t_id)
  have f1: "precision fi1 = precision fi" "radix fi1 = radix fi"
    by (simp_all add: fi1_def)
  have oct: "putll_octal nb (putll_magnitude val fi) fi1 = fi1"
    using len pos by (simp add: putll_octal_def f1 P)
  have hp: "has_flag fi1 SFLAG_HAS_PREC"
    using assms(3) by (simp add: fi1_def has_flag_set_reverse_num)
  have dr: "0 \<le> d" "d \<le> INT_MAX"
    using len pc(3) by (simp_all add: d_def)
  have "to_int (- d) = - d"
    using dr by (intro to_int_id) simp_all
  then have np: "to_int (int (length nb) - precision fi) = - d"
    by (simp add: d_def)
  have eq: "fi1\<lparr>num_pad := - d\<rparr> =
            (set_flag TRFLAG_REVERSE_NUM (fi\<lparr>num_pad := d\<rparr>))\<lparr>precision := precision fi, num_pad := - num_pad (fi\<lparr>num_pad := d\<rparr>)\<rparr>"
    by (simp add: fi1_def set_flag_def)
  have run: "yalc_putll val fi out =
        yalc_pf_field_out \<lparr>inbuff = nb, prefix = putll_prefix val fi, suffix = [], sign_char = CHR 0x00\<rparr>
          (fi1\<lparr>num_pad := - d\<rparr>) out" for out
    using len by (simp add: yalc_putll_def Let_def it oct hp P f1 np)
  have zp: "\<not> has_flag (fi\<lparr>num_pad := d\<rparr>) FFLAG_ZERO_PAD"
    using assms(2) by (simp add: has_flag_def)
  from field_text_number [of "fi\<lparr>num_pad := d\<rparr>" nb "putll_prefix val fi" "precision fi"] dr pc zp
  obtain a b where
    "field_text \<lparr>inbuff = nb, prefix = putll_prefix val fi, suffix = [], sign_char = CHR 0x00\<rparr>
       (fi1\<lparr>num_pad := - d\<rparr>) =
     replicate a CHR '' '' @ putll_prefix val fi @ replicate (nat d) CHR ''0'' @ rev nb @ replicate b CHR '' ''"
    unfolding eq by auto
  moreover have "nat d = nat (precision fi) - length (natural_digits val fi)"
    using pos by (simp add: d_def nd nat_diff_distrib')
  ultimately show ?thesis
    by (intro exI [of _ a] exI [of _ b]) (simp add: run field_out_eq_emit nd)
qed

lemma putll_precision_zero:
  assumes "pads_clear fi" "\<not> has_flag fi FFLAG_ZERO_PAD" "has_flag fi SFLAG_HAS_PREC"
    and "precision fi = 0" "putll_magnitude val fi = 0"
  shows "\<exists>a b. \<forall>out. yalc_putll val fi out =
           emit_chars (replicate a CHR '' '' @ putll_prefix val fi @
             (if radix fi = RADIX_OCT \<and> has_flag fi FFLAG_ALT then ''0'' else []) @
             replicate b CHR '' '') out"
proof -
  define fi1 where "fi1 = set_flag TRFLAG_REVERSE_NUM fi"
  define ds where "ds = (if radix fi = RADIX_OCT \<and> has_flag fi FFLAG_ALT then ''0'' else [])"
  define p where "p = (if radix fi = RADIX_OCT \<and> has_flag fi FFLAG_ALT then 1 else 0 :: int)"
  have it: "yalc_itora 0 fi = (''0'', fi1)"
    by (simp add: yalc_itora_def itora_loop_zero fi1_def)
  have pc: "num_pad fi = 0" "suffix_pad fi = 0" "flags fi AND 0x1C000000 = 0"
    using assms(1) by (simp_all add: pads_clear_def)
  have f1: "precision fi1 = 0" "radix fi1 = radix fi" "has_flag fi1 FFLAG_ALT = has_flag fi FFLAG_ALT"
    "has_flag fi1 SFLAG_HAS_PREC"
    using assms(3,4) by (simp_all add: fi1_def has_flag_set_reverse_num)
  have oct: "putll_octal ''0'' 0 fi1 = fi1\<lparr>precision := p\<rparr>"
    by (simp add: putll_octal_def f1 p_def)
  have hp: "has_flag (fi1\<lparr>precision := x\<rparr>) SFLAG_HAS_PREC" for x
    using f1(4) by (simp add: has_flag_def)
  have eq: "fi1\<lparr>precision := p\<rparr> =
            (set_flag TRFLAG_REVERSE_NUM fi)\<lparr>precision := p, num_pad := - num_pad fi\<rparr>"
    by (simp add: fi1_def set_flag_def pc)
  have run: "yalc_putll val fi out =
        yalc_pf_field_out \<lparr>inbuff = ds, prefix = putll_prefix val fi, suffix = [], sign_char = CHR 0x00\<rparr>
          (fi1\<lparr>precision := p\<rparr>) out" for out
    by (simp add: yalc_putll_def Let_def assms(5) it oct hp p_def ds_def to_size_t_def)
  from field_text_number [of fi ds "putll_prefix val fi" p] pc assms(2)
  obtain a b where
    "field_text \<lparr>inbuff = ds, prefix = putll_prefix val fi, suffix = [], sign_char = CHR 0x00\<rparr>
       (fi1\<lparr>precision := p\<rparr>) =
     replicate a CHR '' '' @ putll_prefix val fi @ replicate (nat 0) CHR ''0'' @ rev ds @ replicate b CHR '' ''"
    unfolding eq by auto
  moreover have "rev ds = ds" by (simp add: ds_def)
  ultimately show ?thesis
    by (intro exI [of _ a] exI [of _ b]) (simp add: run field_out_eq_emit ds_def)
qed

lemma int_type_flag: "flags fi AND TFLAG_MASK = TFLAG_INT \<Longrightarrow> has_flag fi TFLAG_INT"
proof -
  assume a: "flags fi AND TFLAG_MASK = TFLAG_INT"
  have "flags fi AND TFLAG_INT = (flags fi AND TFLAG_MASK) AND TFLAG_INT"
    by (simp add: and.assoc)
  then show ?thesis by (simp add: has_flag_def a)
qed

lemma bitlen_irrelevant:
  "pads_clear (fi\<lparr>int_bitlen := b\<rparr>) = pads_clear fi"
  "has_flag (fi\<lparr>int_bitlen := b\<rparr>) f = has_flag fi f"
  "natural_digits val (fi\<lparr>int_bitlen := b\<rparr>) = natural_digits val fi"
  "putll_prefix val (fi\<lparr>int_bitlen := b\<rparr>) = putll_prefix val fi"
  "putll_magnitude val (fi\<lparr>int_bitlen := b\<rparr>) = putll_magnitude val fi"
  by (simp_all add: pads_clear_def has_flag_def natural_digits_def putll_prefix_def
        putll_magnitude_def yalc_itora_def)

text \<open>
  C7, as the source has it.  For an integer conversion whose descriptor \<open>fi\<close> comes from
  the parser with an explicit precision \<open>P\<close>, \<open>yalc_putll\<close> (called with the resolved bit
  width \<open>bl\<close>) emits, between the spaces of the width padding: the prefix, then
  \<open>P - n\<close> zeros and the \<open>n\<close> natural digits when \<open>n < P\<close>; and, when \<open>P\<close> is zero and the
  value is zero, the prefix and no digit at all, except for the alternate octal form,
  which emits the single digit \<open>0\<close>.
\<close>

theorem integer_precision_padding:
  assumes "yalc_pf_parse_format fmt fmt_len va = Ok (i, fi, va')"
    and "flags fi AND TFLAG_MASK = TFLAG_INT"
    and "has_flag fi SFLAG_HAS_PREC"
  shows "(length (natural_digits val fi) < nat (precision fi) \<longrightarrow>
           (\<exists>a b. \<forall>out. yalc_putll val (fi\<lparr>int_bitlen := bl\<rparr>) out =
              emit_chars (replicate a CHR '' '' @ putll_prefix val fi @
                replicate (nat (precision fi) - length (natural_digits val fi)) CHR ''0'' @
                natural_digits val fi @ replicate b CHR '' '') out)) \<and>
         (precision fi = 0 \<and> putll_magnitude val fi = 0 \<longrightarrow>
           (\<exists>a b. \<forall>out. yalc_putll val (fi\<lparr>int_bitlen := bl\<rparr>) out =
              emit_chars (replicate a CHR '' '' @ putll_prefix val fi @
                (if radix fi = RADIX_OCT \<and> has_flag fi FFLAG_ALT then ''0'' else []) @
                replicate b CHR '' '') out))"
proof -
  let ?fi = "fi\<lparr>int_bitlen := bl\<rparr>"
  have pc: "pads_clear ?fi"
    using parse_format_ok(1) [OF assms(1)] by (simp add: bitlen_irrelevant)
  have zp: "\<not> has_flag ?fi FFLAG_ZERO_PAD"
    using parse_format_ok(2) [OF assms(1) int_type_flag [OF assms(2)] assms(3)]
    by (simp add: bitlen_irrelevant)
  have hp: "has_flag ?fi SFLAG_HAS_PREC"
    using assms(3) by (simp add: bitlen_irrelevant)
  show ?thesis
    using putll_precision_pad [OF pc zp hp, of val] putll_precision_zero [OF pc zp hp, of val]
    by (simp add: bitlen_irrelevant)
qed

text \<open>
  \<open>%.*i\<close> with the precision 324 and the value 0 emits 324 zeros; \<open>%.0d\<close> with the value 0
  emits no digit.
\<close>

lemma parse_prec_star:
  "yalc_pf_parse_format ''%.*i'' 4 [VA_Int 324, VA_Int 0] = Ok (3, fi_prec 324, [VA_Int 0])"
  by code_simp

lemma parse_prec_zero:
  "yalc_pf_parse_format ''%.0d'' 4 [] = Ok (3, fi_prec 0, [])"
  by code_simp

lemma fi_prec_facts:
  "flags (fi_prec p) AND TFLAG_MASK = TFLAG_INT" "has_flag (fi_prec p) SFLAG_HAS_PREC"
  "precision (fi_prec p) = p" "natural_digits 0 (fi_prec p) = ''0''"
  "putll_prefix 0 (fi_prec p) = []" "putll_magnitude 0 (fi_prec p) = 0" "radix (fi_prec p) = RADIX_DEC"
  by (simp_all add: fi_prec_def yalc_clear_fi_def has_flag_def natural_digits_def putll_magnitude_def
      yalc_itora_def itora_loop_zero putll_prefix_def)

theorem integer_precision_padding_witness:
  "(\<exists>a b. \<forall>out. yalc_putll 0 (fi_prec 324\<lparr>int_bitlen := 32\<rparr>) out =
      emit_chars (replicate a CHR '' '' @ replicate 324 CHR ''0'' @ replicate b CHR '' '') out) \<and>
   (\<exists>a b. \<forall>out. yalc_putll 0 (fi_prec 0\<lparr>int_bitlen := 32\<rparr>) out =
      emit_chars (replicate a CHR '' '' @ replicate b CHR '' '') out)"
proof -
  have "replicate 324 CHR ''0'' = replicate (323 + 1) CHR ''0''"
    by simp
  also have "\<dots> = replicate 323 CHR ''0'' @ ''0''"
    by (simp only: replicate_add) simp
  finally have r: "replicate 323 CHR ''0'' @ CHR ''0'' # xs = replicate 324 CHR ''0'' @ xs" for xs
    by simp
  show ?thesis
    using integer_precision_padding [OF parse_prec_star, of 0 32]
      integer_precision_padding [OF parse_prec_zero, of 0 32]
    by (simp add: fi_prec_facts r)
qed

text \<open>\<open>%#.0o\<close> with the value 0 prints \<open>0\<close>: the digit string is not empty.\<close>

lemma parse_alt_octal:
  "yalc_pf_parse_format ''%#.0o'' 5 [VA_Int 0] =
     Ok (4, yalc_clear_fi\<lparr>flags := FFLAG_ALT OR TFLAG_INT OR SFLAG_HAS_PREC, radix := RADIX_OCT\<rparr>, [VA_Int 0])"
  by code_simp

lemma putll_alt_octal:
  "yalc_putll 0 (yalc_clear_fi\<lparr>flags := FFLAG_ALT OR TFLAG_INT OR SFLAG_HAS_PREC, radix := RADIX_OCT, int_bitlen := 32\<rparr>)
     \<lparr>outbuff = None, outbuff_len = 0, chars_out = 0, console = []\<rparr> =
   \<lparr>outbuff = None, outbuff_len = 0, chars_out = 1, console = ''0''\<rparr>"
  apply (simp add: yalc_putll_def putll_prefix_def putll_magnitude_def yalc_itora_def itora_loop_zero
      putll_octal_def yalc_clear_fi_def has_flag_def set_flag_def field_out_eq_emit
      to_size_t_def size_t_to_int_def to_int_def
      cong: let_weak_cong prod.case_cong_weak)
  apply (simp add: field_text_def has_flag_def width_pad_of_def field_width_of_def prebuf_pad_of_def
      postbuf_pad_of_def to_int_def to_size_t_def size_t_to_int_def replicate_numeral_unfold)
  apply (simp add: emit_chars_console char_out_console)
  done

theorem alt_octal_zero_prints_digit:
  "vprintf wfs [] ''%#.0o'' [VA_Int 0] =
     (Some 1, \<lparr>outbuff = None, outbuff_len = 0, chars_out = 1, console = ''0''\<rparr>)"
proof -
  let ?out0 = "\<lparr>outbuff = None, outbuff_len = 0, chars_out = 0, console = []\<rparr>"
  let ?out1 = "\<lparr>outbuff = None, outbuff_len = 0, chars_out = 1, console = ''0''\<rparr>"
  have b: "xprintf_body wfs ''%#.0o'' 5 0 ?out0 [VA_Int 0] = Next 5 ?out1 []"
    by (simp add: xprintf_body_def char_at_def size_t_to_int_def to_int_def parse_alt_octal
        print_int_def resolve_bitlen_def has_flag_def yalc_clear_fi_def extend_arg_def
        putll_alt_octal [unfolded yalc_clear_fi_def, simplified])
  have n: "strlen ''%#.0o'' = 5"
    by (simp add: strlen_def)
  have "xprintf_loop wfs ''%#.0o'' 5 0 ?out0 [VA_Int 0] = xprintf_loop wfs ''%#.0o'' 5 5 ?out1 []"
    by (rule loop_unfold_next [OF _ b]) simp
  also have "\<dots> = (Some 1, ?out1)"
    by (simp add: loop_unfold_end size_t_to_int_def to_int_def)
  finally show ?thesis
    by (simp only: vprintf_def yalc_xprintf_def n)
qed

section \<open>Rendering of zero\<close>

lemma parse_f: "yalc_pf_parse_format ''%f'' 2 [VA_Double 0] = Ok (1, yalc_clear_fi\<lparr>flags := TFLAG_DOUBLE\<rparr>, [VA_Double 0])"
  by code_simp

lemma parse_e: "yalc_pf_parse_format ''%e'' 2 [VA_Double 0] = Ok (1, yalc_clear_fi\<lparr>flags := TFLAG_DOUBLE OR SFLAG_IS_EFORM\<rparr>, [VA_Double 0])"
  by code_simp

lemma parse_g: "yalc_pf_parse_format ''%g'' 2 [VA_Double 0] = Ok (1, yalc_clear_fi\<lparr>flags := TFLAG_DOUBLE OR SFLAG_IS_GFORM\<rparr>, [VA_Double 0])"
  by code_simp

lemma parse_a: "yalc_pf_parse_format ''%a'' 2 [VA_Double 0] = Ok (1, yalc_clear_fi\<lparr>flags := TFLAG_DOUBLE OR SFLAG_IS_AFORM, radix := RADIX_HEX\<rparr>, [VA_Double 0])"
  by code_simp

lemma putd_f:
  "yalc_putd 0 (yalc_clear_fi\<lparr>flags := TFLAG_DOUBLE\<rparr>) con0 =
     Some \<lparr>outbuff = None, outbuff_len = 0, chars_out = 8, console = ''0.000000''\<rparr>"
  apply (simp add: yalc_putd_def putd_render_def putd_zero_def yalc_clear_fi_def has_flag_def
      field_out_eq_emit cong: let_weak_cong prod.case_cong_weak)
  apply (simp add: ft_eval del: emit_chars.simps)
  apply (simp add: con_emit del: emit_chars.simps)
  done

lemma putd_e:
  "yalc_putd 0 (yalc_clear_fi\<lparr>flags := TFLAG_DOUBLE OR SFLAG_IS_EFORM\<rparr>) con0 =
     Some \<lparr>outbuff = None, outbuff_len = 0, chars_out = 12, console = ''0.000000e+00''\<rparr>"
  apply (simp add: yalc_putd_def putd_render_def putd_zero_def yalc_clear_fi_def has_flag_def
      field_out_eq_emit cong: let_weak_cong prod.case_cong_weak)
  apply (simp add: ft_eval del: emit_chars.simps)
  apply (simp add: con_emit del: emit_chars.simps)
  done

lemma putd_g:
  "yalc_putd 0 (yalc_clear_fi\<lparr>flags := TFLAG_DOUBLE OR SFLAG_IS_GFORM\<rparr>) con0 =
     Some \<lparr>outbuff = None, outbuff_len = 0, chars_out = 1, console = ''0''\<rparr>"
  apply (simp add: yalc_putd_def putd_render_def putd_zero_def yalc_clear_fi_def has_flag_def
      field_out_eq_emit cong: let_weak_cong prod.case_cong_weak)
  apply (simp add: ft_eval del: emit_chars.simps)
  apply (simp add: con_emit del: emit_chars.simps)
  done

lemma putd_a:
  "yalc_putd 0 (yalc_clear_fi\<lparr>flags := TFLAG_DOUBLE OR SFLAG_IS_AFORM, radix := RADIX_HEX\<rparr>) con0 =
     Some \<lparr>outbuff = None, outbuff_len = 0, chars_out = 20, console = ''0x0.0000000000000p+0''\<rparr>"
  apply (simp add: yalc_putd_def putd_render_def putd_zero_def yalc_clear_fi_def has_flag_def
      field_out_eq_emit cong: let_weak_cong prod.case_cong_weak)
  apply (simp add: ft_eval del: emit_chars.simps)
  apply (simp add: con_emit del: emit_chars.simps)
  done

lemma print_one_double:
  assumes "yalc_pf_parse_format [CHR ''%'', c] 2 [VA_Double d] = Ok (1, fi, [VA_Double d])"
    and "flags fi AND TFLAG_MASK = TFLAG_DOUBLE" "\<not> has_flag fi LFLAG_LONG"
    and "yalc_putd d fi con0 = Some out" "chars_out out \<le> 2147483647" "c \<noteq> CHR ''%''" "c \<noteq> CHR 0x00"
  shows "vprintf fs [] [CHR ''%'', c] [VA_Double d] = (Some (int (chars_out out)), out)"
proof -
  have n: "strlen [CHR ''%'', c] = 2"
    using assms(7) by (simp add: strlen_def)
  have b: "xprintf_body fs [CHR ''%'', c] 2 0 con0 [VA_Double d] = Next 2 out []"
    using assms by (simp add: xprintf_body_def char_at_def size_t_to_int_def to_int_def print_double_def)
  have "xprintf_loop fs [CHR ''%'', c] 2 0 con0 [VA_Double d] = xprintf_loop fs [CHR ''%'', c] 2 2 out []"
    by (rule loop_unfold_next [OF _ b]) simp
  also have "\<dots> = (Some (int (chars_out out)), out)"
    using assms(5) by (simp add: loop_unfold_end size_t_to_int_id)
  finally show ?thesis
    by (simp only: vprintf_def yalc_xprintf_def n con0_def [symmetric])
qed

text \<open>
  C4, as the source has it: the value \<open>0.0\<close> with no width and no precision is printed as
  \<open>0.000000\<close> by \<open>%f\<close>, \<open>0.000000e+00\<close> by \<open>%e\<close>, \<open>0\<close> by \<open>%g\<close> and
  \<open>0x0.0000000000000p+0\<close> by \<open>%a\<close>, whose default precision is 13.
\<close>

theorem zero_rendering:
  "vprintf fs [] ''%f'' [VA_Double 0] =
     (Some 8, \<lparr>outbuff = None, outbuff_len = 0, chars_out = 8, console = ''0.000000''\<rparr>) \<and>
   vprintf fs [] ''%e'' [VA_Double 0] =
     (Some 12, \<lparr>outbuff = None, outbuff_len = 0, chars_out = 12, console = ''0.000000e+00''\<rparr>) \<and>
   vprintf fs [] ''%g'' [VA_Double 0] =
     (Some 1, \<lparr>outbuff = None, outbuff_len = 0, chars_out = 1, console = ''0''\<rparr>) \<and>
   vprintf fs [] ''%a'' [VA_Double 0] =
     (Some 20, \<lparr>outbuff = None, outbuff_len = 0, chars_out = 20, console = ''0x0.0000000000000p+0''\<rparr>)"
  using print_one_double [OF parse_f _ _ putd_f, of fs] print_one_double [OF parse_e _ _ putd_e, of fs]
    print_one_double [OF parse_g _ _ putd_g, of fs] print_one_double [OF parse_a _ _ putd_a, of fs]
  by (simp add: yalc_clear_fi_def has_flag_def)

text \<open>The output of \<open>%a\<close> for \<open>0.0\<close> is not \<open>0x0p+0\<close>.\<close>

theorem hex_zero_has_thirteen_fraction_digits:
  "console (snd (vprintf wfs [] ''%a'' [VA_Double 0])) \<noteq> ''0x0p+0''"
  using print_one_double [OF parse_a _ _ putd_a, of wfs]
  by (simp add: yalc_clear_fi_def has_flag_def)

section \<open>The decimal exponent estimate\<close>

lemma wrapped_q:
  assumes "0 \<le> exponent2" "exponent2 \<le> 3"
  shows "max_u32 0 (to_u32 (int (Log10ofPow2 exponent2) - 1)) = 4294967295"
proof -
  from assms have "exponent2 = 0 \<or> exponent2 = 1 \<or> exponent2 = 2 \<or> exponent2 = 3" by auto
  then have "Log10ofPow2 exponent2 = 0"
    by (elim disjE) (simp_all add: Log10ofPow2_def to_u32_def)
  then show ?thesis
    by (simp add: max_u32_def to_u32_def)
qed

lemma inv_offsets_out_of_bounds: "table_at POW5_INV_OFFSETS (4294967295 div 16) = None"
  by (simp add: table_at_def POW5_INV_OFFSETS_def)

lemma inv_offset_nonzero:
  "to_u32 (int ((((4294967295 + POW5_TABLE_SIZE - 1) mod 2 ^ 32) div POW5_TABLE_SIZE * POW5_TABLE_SIZE) mod 2 ^ 32) - int 4294967295) = 1"
  by (simp add: to_u32_def)

lemma Pow2kInvPow5_wrapped: "Pow2kInvPow5 4294967295 = None"
proof -
  have "(case (x, None :: nat option) of (Some m, Some off) \<Rightarrow> f m off | _ \<Rightarrow> None) = (None :: (nat \<times> nat) option)"
    for x :: "nat option" and f
    by (cases x) simp_all
  then show ?thesis
    unfolding Pow2kInvPow5_def Let_def inv_offsets_out_of_bounds inv_offset_nonzero
    by (simp split: option.split)
qed

lemma step3_pos_small_exponent:
  assumes "0 \<le> exponent2" "exponent2 \<le> 3"
  shows "step3_pos exponent2 e u v w = None"
proof -
  have "to_u32 (to_int (int (4294967295 :: nat))) = 4294967295"
    by (simp add: to_u32_def to_int_def)
  then show ?thesis
    unfolding step3_pos_def Let_def wrapped_q [OF assms]
    by (simp add: Pow2kInvPow5_wrapped)
qed

text \<open>
  C1: every finite non-zero binary64 value should be converted to its shortest decimal
  representation.  For a biased exponent from 1077 to 1080 (the values from \<open>2 ^ 54\<close> up to
  \<open>2 ^ 58\<close>) the binary exponent of step 3 is between 0 and 3, \<open>Log10ofPow2\<close> of it is 0, and
  \<open>max(0, Log10ofPow2(exponent2) - 1)\<close>, computed on \<open>uint32_t\<close>, is \<open>0xFFFFFFFF\<close> instead of
  0: \<open>Pow2kInvPow5\<close> then reads \<open>POW5_INV_OFFSETS\<close> far outside the table, and the conversion
  has no defined result.
\<close>

theorem digit_estimate_wraps:
  assumes "1077 \<le> exponent_biased" "exponent_biased \<le> 1080"
  shows "yalc_double_to_decimal exponent_biased significand = None"
proof -
  define e2 where "e2 = to_int (int exponent_biased - 1023)"
  have e2: "e2 = int exponent_biased - 1023"
    using assms unfolding e2_def by (intro to_int_id) simp_all
  have "to_int (e2 - 54) = e2 - 54"
    using assms unfolding e2 by (intro to_int_id) simp_all
  then have r: "0 \<le> to_int (e2 - 54)" "to_int (e2 - 54) \<le> 3"
    using assms by (simp_all add: e2)
  have "\<not> e2 < 52" "exponent_biased \<noteq> 0"
    using assms by (simp_all add: e2)
  then show ?thesis
    unfolding yalc_double_to_decimal_def Let_def
    by (simp add: e2_def [symmetric] r step3_pos_small_exponent [OF r])
qed

text \<open>The value \<open>1e17\<close>, bit pattern \<open>0x4376345785D8A000\<close>.\<close>

theorem digit_estimate_wraps_witness:
  "yalc_double_to_decimal 1079 0x6345785D8A000 = None"
  using digit_estimate_wraps [of 1079 "0x6345785D8A000"] by simp

text \<open>
  The documented boundary case \<open>0x4830F0CF064DD592\<close> is converted to
  \<open>5764607523034235 * 10 ^ 24\<close>.
\<close>

lemma Pow2kInvPow5_22: "Pow2kInvPow5 22 = Some (3054734472329800808, 2177807148294006166)"
  by (simp add: Pow2kInvPow5_def table_at_def POW5_INV_SPLIT2_def POW5_TABLE_def POW5_INV_OFFSETS_def
      to_u32_def to_u64_def to_int_def CeilLog2ofPow5_def Log2ofPow5_def shifted_sum_def Let_def)

lemma pow5_factor_boundary: "pow5_factor_loop 19073486328125000 0 = Some 22"
  by (simp add: pow5_factor_loop.simps)

lemma step3_boundary:
  "step3_pos 78 True 19073486328124998 19073486328125000 19073486328125002 =
     Some (22, \<lparr>ry_a = 576460752303423427, ry_b = 576460752303423488,
      ry_c = 576460752303423548, ry_Za = False, ry_Zb = True,
      last_removed_digit = 0, removed_digits = 0\<rparr>)"
  by (simp add: step3_pos_def Log10ofPow2_def to_u32_def max_u32_def to_int_def Log2ofPow5_def
      Pow2kInvPow5_22 MulShift64_def DivisibleByPow5_def pow5_factor_boundary Let_def)

lemma shortest_boundary:
  "shortest_digits True \<lparr>ry_a = 576460752303423427, ry_b = 576460752303423488,
      ry_c = 576460752303423548, ry_Za = False, ry_Zb = True,
      last_removed_digit = 0, removed_digits = 0\<rparr> = Some (5764607523034235, 2)"
  by (simp add: shortest_digits_def general_loop.simps to_int_def Let_def)

lemma documented_boundary_case:
  "yalc_double_to_decimal 1155 0xF0CF064DD592 = Some (24, 5764607523034235)"
  by (simp add: yalc_double_to_decimal_def to_int_def to_u64_def step3_boundary shortest_boundary Let_def)

section \<open>Length modifiers\<close>

text \<open>
  C5: a third \<open>h\<close> or \<open>l\<close> should make \<open>yalc_pf_parse_format\<close> fail with the
  invalid-argument status.  The source keeps \<open>LFLAG_HALF\<close> set when it adds
  \<open>LFLAG_HALF_HALF\<close> (and \<open>LFLAG_LONG\<close> when it adds \<open>LFLAG_LONG_LONG\<close>), so the first test
  of the \<open>h\<close> (\<open>l\<close>) case succeeds again on the third letter and the branch that returns
  \<open>-EINVAL\<close> is never taken: \<open>%hhhd\<close> and \<open>%llld\<close> parse successfully, returning the index 4
  of the conversion letter.
\<close>

theorem third_length_letter_accepted:
  "yalc_pf_parse_format ''%hhhd'' 5 [] =
     Ok (4, yalc_clear_fi\<lparr>flags := LFLAG_HALF OR LFLAG_HALF_HALF OR TFLAG_INT OR SFLAG_IS_SIGNED\<rparr>, [])
   \<and> yalc_pf_parse_format ''%llld'' 5 [] =
     Ok (4, yalc_clear_fi\<lparr>flags := LFLAG_LONG OR LFLAG_LONG_LONG OR TFLAG_INT OR SFLAG_IS_SIGNED\<rparr>, [])"
  by code_simp

text \<open>
  C6: \<open>%w<N>\<close> should record \<open>N\<close> as the bit width for every \<open>N\<close> from 1 to 64.  The digit
  \<open>0\<close> is handled by the flag case of the switch, which does not look at \<open>has_bitlen\<close>:
  for \<open>%w10d\<close> the parser records the width 1 and sets the zero-pad flag.
\<close>

theorem bit_width_ten_recorded_as_one:
  "yalc_pf_parse_format ''%w10d'' 5 [] =
     Ok (4, yalc_clear_fi\<lparr>flags := FFLAG_ZERO_PAD OR TFLAG_INT OR SFLAG_IS_SIGNED, int_bitlen := 1\<rparr>, [])"
  by code_simp

end
